theory Spec2Isabelle
  imports Main
begin

section \<open>Paths and strings\<close>

text \<open>
  A \<open>pathlib\<close> path on POSIX is a root (\<open>''''\<close>, \<open>''/''\<close> or \<open>''//''\<close>) and the list of
  its components. Two paths are equal, and hash alike as dictionary keys, when root and
  components agree. A Python \<open>str\<close> is a \<open>string\<close>; text that was decoded from bytes is
  kept in its UTF-8 form, so a decoded text and the bytes it came from are the same list.
\<close>

datatype path = Path (root: string) (parts: "string list")

fun split_sep :: "char \<Rightarrow> string \<Rightarrow> string list" where
  "split_sep c [] = [[]]"
| "split_sep c (x # xs) =
     (if x = c then [] # split_sep c xs
      else (case split_sep c xs of [] \<Rightarrow> [[x]] | y # ys \<Rightarrow> (x # y) # ys))"

definition parse_root :: "string \<Rightarrow> string" where
  "parse_root s =
     (if take 2 s = ''//'' \<and> take 3 s \<noteq> ''///'' then ''//''
      else if take 1 s = ''/'' then ''/''
      else '''')"

definition parse_path :: "string \<Rightarrow> path" where
  "parse_path s = Path (parse_root s) (filter (\<lambda>x. x \<noteq> [] \<and> x \<noteq> ''.'') (split_sep CHR ''/'' s))"

fun join_sep :: "string list \<Rightarrow> string" where
  "join_sep [] = []"
| "join_sep [x] = x"
| "join_sep (x # y # ys) = x @ ''/'' @ join_sep (y # ys)"

definition path_str :: "path \<Rightarrow> string" where
  "path_str p = (if root p = [] \<and> parts p = [] then ''.'' else root p @ join_sep (parts p))"

definition parent :: "path \<Rightarrow> path" where
  "parent p = Path (root p) (butlast (parts p))"

definition name :: "path \<Rightarrow> string" where
  "name p = (if parts p = [] then [] else last (parts p))"

fun rfind_dot :: "string \<Rightarrow> nat option" where
  "rfind_dot [] = None"
| "rfind_dot (c # cs) =
     (case rfind_dot cs of
        Some i \<Rightarrow> Some (Suc i)
      | None \<Rightarrow> (if c = CHR ''.'' then Some 0 else None))"

definition stem :: "path \<Rightarrow> string" where
  "stem p =
     (case rfind_dot (name p) of
        Some i \<Rightarrow> (if 0 < i \<and> i < length (name p) - 1 then take i (name p) else name p)
      | None \<Rightarrow> name p)"

text \<open>
  \<open>p / s\<close> and \<open>p.joinpath(s)\<close>. Every right operand in the two modules is one component
  without a separator (a file name built from a stem and a seed, or a fixed log name).
\<close>

definition joinpath :: "path \<Rightarrow> string \<Rightarrow> path" where
  "joinpath p s = Path (root p) (parts p @ [s])"

text \<open>An argument annotated \<open>Union[str, Path]\<close>, its truth value, and \<open>Path(x)\<close>.\<close>

datatype pathlike = PStr string | PPath path

fun truthy :: "pathlike option \<Rightarrow> bool" where
  "truthy None = False"
| "truthy (Some (PStr s)) = (s \<noteq> [])"
| "truthy (Some (PPath p)) = True"

fun Path_of :: "pathlike \<Rightarrow> path" where
  "Path_of (PStr s) = parse_path s"
| "Path_of (PPath p) = p"

text \<open>\<open>Path(x) if x else None\<close>.\<close>

definition optional_path :: "pathlike option \<Rightarrow> path option" where
  "optional_path x =
     (case x of
        Some c \<Rightarrow> (if truthy x then Some (Path_of c) else None)
      | None \<Rightarrow> None)"

text \<open>\<open>str(n)\<close> for Python's unbounded integers.\<close>

definition digit :: "nat \<Rightarrow> char" where
  "digit d = ''0123456789'' ! d"

fun str_nat :: "nat \<Rightarrow> string" where
  "str_nat n = (if n < 10 then [digit n] else str_nat (n div 10) @ [digit (n mod 10)])"

declare str_nat.simps [simp del]

definition str_int :: "int \<Rightarrow> string" where
  "str_int i = (if i < 0 then CHR ''-'' # str_nat (nat (- i)) else str_nat (nat i))"

text \<open>Python's \<open>needle in haystack\<close> on strings.\<close>

fun str_contains :: "string \<Rightarrow> string \<Rightarrow> bool" where
  "str_contains needle [] = (needle = [])"
| "str_contains needle (c # cs) =
     (take (length needle) (c # cs) = needle \<or> str_contains needle cs)"

section \<open>The bind-path allocator\<close>

text \<open>
  \<open>bind_map\<close> is a Python dictionary from resolved host paths to mount names. A dictionary
  keeps its keys in insertion order, which the builders rely on, so it is an association
  list that grows at the end.
\<close>

type_synonym bind_map = "(path \<times> string) list"

text \<open>The f-string \<open>f"{preferred}_{counter}"\<close>.\<close>

definition suffixed :: "string \<Rightarrow> int \<Rightarrow> string" where
  "suffixed preferred counter = preferred @ ''_'' @ str_int counter"

lemma below_ten: "(d::nat) < 10 \<Longrightarrow> d \<in> {0, 1, 2, 3, 4, 5, 6, 7, 8, 9}"
  by auto

lemma digit_inj: "a < 10 \<Longrightarrow> b < 10 \<Longrightarrow> digit a = digit b \<Longrightarrow> a = b"
  by (drule below_ten, drule below_ten) (auto simp: digit_def)

lemma digit_not_minus: "d < 10 \<Longrightarrow> digit d \<noteq> CHR ''-''"
  by (drule below_ten) (auto simp: digit_def)

lemma str_nat_nonempty: "str_nat n \<noteq> []"
  by (subst str_nat.simps) simp

lemma str_nat_last: "last (str_nat n) = digit (n mod 10)"
  by (subst str_nat.simps) simp

lemma str_nat_butlast: "butlast (str_nat n) = (if n < 10 then [] else str_nat (n div 10))"
  by (subst str_nat.simps) simp

lemma str_nat_inj: "str_nat n = str_nat m \<Longrightarrow> n = m"
proof (induction n arbitrary: m rule: str_nat.induct)
  case (1 n)
  from "1.prems" have "digit (n mod 10) = digit (m mod 10)"
    by (metis str_nat_last)
  then have md: "n mod 10 = m mod 10" by (simp add: digit_inj)
  from "1.prems" have bl: "butlast (str_nat n) = butlast (str_nat m)" by simp
  show ?case
  proof (cases "n < 10")
    case True
    have "m < 10"
    proof (rule ccontr)
      assume "\<not> m < 10"
      with bl True have "str_nat (m div 10) = []" by (simp add: str_nat_butlast)
      then show False by (simp add: str_nat_nonempty)
    qed
    with True md show ?thesis by simp
  next
    case False
    have "\<not> m < 10"
    proof
      assume "m < 10"
      with bl False have "str_nat (n div 10) = []" by (simp add: str_nat_butlast)
      then show False by (simp add: str_nat_nonempty)
    qed
    with bl False have "str_nat (n div 10) = str_nat (m div 10)" by (simp add: str_nat_butlast)
    with "1.IH" False have "n div 10 = m div 10" by simp
    with md show ?thesis by (metis div_mult_mod_eq)
  qed
qed

lemma str_nat_hd_not_minus: "hd (str_nat n) \<noteq> CHR ''-''"
proof (induction n rule: str_nat.induct)
  case (1 n)
  show ?case
  proof (cases "n < 10")
    case True
    then show ?thesis by (subst str_nat.simps) (simp add: digit_not_minus)
  next
    case False
    with 1 show ?thesis by (subst str_nat.simps) (simp add: str_nat_nonempty)
  qed
qed

lemma minus_not_str_nat: "CHR ''-'' # s \<noteq> str_nat k"
  using str_nat_hd_not_minus [of k] by (metis list.sel(1))

lemma str_int_inj: "str_int i = str_int j \<Longrightarrow> i = j"
proof -
  assume e: "str_int i = str_int j"
  show "i = j"
  proof (cases "i < 0"; cases "j < 0")
    assume "i < 0" "j < 0"
    with e have "nat (- i) = nat (- j)" by (simp add: str_int_def str_nat_inj)
    with \<open>i < 0\<close> \<open>j < 0\<close> show ?thesis by simp
  next
    assume "i < 0" "\<not> j < 0"
    with e minus_not_str_nat show ?thesis by (simp add: str_int_def)
  next
    assume "\<not> i < 0" "j < 0"
    with e minus_not_str_nat [of "str_nat (nat (- j))" "nat i"] show ?thesis
      by (simp add: str_int_def)
  next
    assume "\<not> i < 0" "\<not> j < 0"
    with e have "nat i = nat j" by (simp add: str_int_def str_nat_inj)
    with \<open>\<not> i < 0\<close> \<open>\<not> j < 0\<close> show ?thesis by simp
  qed
qed

lemma suffixed_inj: "suffixed p i = suffixed p j \<Longrightarrow> i = j"
  by (simp add: suffixed_def str_int_inj)

lemma finite_taken: "finite {k. c < k \<and> suffixed p k \<in> set vals}"
proof -
  have "inj (suffixed p)" by (auto intro: injI dest: suffixed_inj)
  then have "finite (suffixed p -` set vals)" by (simp add: finite_vimageI)
  moreover have "{k. c < k \<and> suffixed p k \<in> set vals} \<subseteq> suffixed p -` set vals" by auto
  ultimately show ?thesis by (rule rev_finite_subset)
qed

text \<open>
  The loop of \<open>ensure_bind\<close>:
  \<^verbatim>\<open>while dest in bind_map.values(): counter += 1; dest = f"{preferred}_{counter}"\<close>
  The state is \<open>(counter, dest)\<close>. It ends because the candidate names of different
  counters differ and only finitely many names are taken.
\<close>

function find_dest :: "string \<Rightarrow> string list \<Rightarrow> int \<Rightarrow> string \<Rightarrow> string" where
  "find_dest preferred vals counter dest =
     (if dest \<in> set vals
      then find_dest preferred vals (counter + 1) (suffixed preferred (counter + 1))
      else dest)"
  by pat_completeness auto
termination
proof (relation "measure (\<lambda>(p, vals, c, dest).
          (if dest \<in> set vals then 1 else 0) + 2 * card {k. c < k \<and> suffixed p k \<in> set vals})")
  show "wf (measure (\<lambda>(p, vals, c, dest).
          (if dest \<in> set vals then 1 else 0) + 2 * card {k. c < k \<and> suffixed p k \<in> set vals}))"
    by simp
next
  fix preferred :: string and vals :: "string list" and counter :: int and dest :: string
  assume taken: "dest \<in> set vals"
  let ?A = "{k. counter < k \<and> suffixed preferred k \<in> set vals}"
  let ?B = "{k. counter + 1 < k \<and> suffixed preferred k \<in> set vals}"
  show "((preferred, vals, counter + 1, suffixed preferred (counter + 1)),
         (preferred, vals, counter, dest)) \<in> measure (\<lambda>(p, vals, c, dest).
          (if dest \<in> set vals then 1 else 0) + 2 * card {k. c < k \<and> suffixed p k \<in> set vals})"
  proof (cases "suffixed preferred (counter + 1) \<in> set vals")
    case True
    then have "counter + 1 \<in> ?A" "counter + 1 \<notin> ?B" by auto
    moreover have "?B \<subseteq> ?A" by auto
    ultimately have "?B \<subset> ?A" by blast
    then have "card ?B < card ?A" by (simp add: finite_taken psubset_card_mono)
    with True taken show ?thesis by simp
  next
    case False
    have "?A = ?B"
    proof (rule set_eqI)
      fix k show "k \<in> ?A \<longleftrightarrow> k \<in> ?B"
        using False by (cases "k = counter + 1") auto
    qed
    with False taken show ?thesis by simp
  qed
qed

declare find_dest.simps [simp del]

text \<open>
  \<open>ensure_bind\<close>, the closure of both command builders (the two copies are the same text).
  The closure's captured \<open>bind_map\<close> is passed in and returned; \<open>rslv\<close> is \<open>Path.resolve\<close>
  on the file system of the call.
\<close>

definition ensure_bind :: "(path \<Rightarrow> path) \<Rightarrow> bind_map \<Rightarrow> path \<Rightarrow> string \<Rightarrow> string \<times> bind_map" where
  "ensure_bind rslv bind_map pth preferred =
     (let pth = rslv pth in
      case map_of bind_map pth of
        Some dest \<Rightarrow> (dest, bind_map)
      | None \<Rightarrow>
          (let dest = find_dest preferred (map snd bind_map) 1 preferred
           in (dest, bind_map @ [(pth, dest)])))"

text \<open>A sequence of requests to one allocator, in order, with the names it returned.\<close>

fun ensure_binds :: "(path \<Rightarrow> path) \<Rightarrow> bind_map \<Rightarrow> (path \<times> string) list \<Rightarrow> string list \<times> bind_map" where
  "ensure_binds rslv bm [] = ([], bm)"
| "ensure_binds rslv bm ((pth, preferred) # reqs) =
     (let (dest, bm1) = ensure_bind rslv bm pth preferred;
          (dests, bm2) = ensure_binds rslv bm1 reqs
      in (dest # dests, bm2))"

section \<open>The command builders\<close>

datatype error =
    FileNotFoundError
  | AssertionError
  | UnicodeDecodeError
  | SetupError
  | ConversionError
  | OSError

text \<open>
  What a command builder reads from the host at the time of the call: \<open>Path.resolve\<close>,
  \<open>Path.exists\<close>, \<open>shutil.which\<close>, and the directory of the module
  (\<open>Path(__file__).parent\<close>).
\<close>

record host =
  resolve :: "path \<Rightarrow> path"
  exists :: "path \<Rightarrow> bool"
  which :: "string \<Rightarrow> string option"
  module_dir :: path

definition resolve_container_runtime :: "host \<Rightarrow> error + string" where
  "resolve_container_runtime h =
     (let runtime =
            (case which h ''apptainer'' of
               Some r \<Rightarrow> (if r \<noteq> [] then Some r else which h ''singularity'')
             | None \<Rightarrow> which h ''singularity'')
      in case runtime of
           Some r \<Rightarrow> (if r \<noteq> [] then Inr r else Inl FileNotFoundError)
         | None \<Rightarrow> Inl FileNotFoundError)"

text \<open>The loop \<open>for src, dst in bind_map.items(): cmd += ["--bind", f"{str(src)}:{dst}"]\<close>.\<close>

fun bind_args :: "bind_map \<Rightarrow> string list" where
  "bind_args [] = []"
| "bind_args ((src, dst) # rest) = [''--bind'', path_str src @ '':'' @ dst] @ bind_args rest"

subsection \<open>Boltz\<close>

definition boltz_container_command ::
  "host \<Rightarrow> path \<Rightarrow> path \<Rightarrow> int \<Rightarrow> int \<Rightarrow> int \<Rightarrow> pathlike \<Rightarrow> error + string list" where
  "boltz_container_command h input_yaml output_dir number_of_models num_recycles seed sif_path =
     (let sif = resolve h (Path_of sif_path) in
      case resolve_container_runtime h of
        Inl e \<Rightarrow> Inl e
      | Inr runtime \<Rightarrow>
          (let bind_map = [];
               (input_mount, bind_map) = ensure_bind (resolve h) bind_map (parent input_yaml) ''/input'';
               (output_mount, bind_map) = ensure_bind (resolve h) bind_map output_dir ''/output'';
               cmd = [runtime, ''exec'', ''--nv''];
               cmd = cmd @ bind_args bind_map;
               cmd = cmd @
                 [path_str sif, ''boltz'', ''predict'',
                  input_mount @ ''/'' @ name input_yaml,
                  ''--out_dir'', output_mount,
                  ''--override'', ''--write_full_pae'', ''--write_full_pde'',
                  ''--diffusion_samples'', str_int number_of_models,
                  ''--recycling_steps'', str_int num_recycles,
                  ''--seed'', str_int seed]
           in Inr cmd))"

definition boltz_bare_command :: "path \<Rightarrow> path \<Rightarrow> int \<Rightarrow> int \<Rightarrow> int \<Rightarrow> string list" where
  "boltz_bare_command input_yaml output_dir number_of_models num_recycles seed =
     [''boltz'', ''predict'', path_str input_yaml,
      ''--out_dir'', path_str output_dir,
      ''--override'', ''--write_full_pae'', ''--write_full_pde'',
      ''--diffusion_samples'', str_int number_of_models,
      ''--recycling_steps'', str_int num_recycles,
      ''--seed'', str_int seed]"

definition generate_boltz_command ::
  "host \<Rightarrow> pathlike \<Rightarrow> pathlike \<Rightarrow> int \<Rightarrow> int \<Rightarrow> int \<Rightarrow> pathlike option \<Rightarrow> error + string list" where
  "generate_boltz_command h input_yaml output_dir number_of_models num_recycles seed sif_path =
     (let input_yaml = resolve h (Path_of input_yaml);
          output_dir = resolve h (Path_of output_dir)
      in case sif_path of
           Some sp \<Rightarrow>
             (if truthy sif_path
              then boltz_container_command h input_yaml output_dir number_of_models num_recycles seed sp
              else Inr (boltz_bare_command input_yaml output_dir number_of_models num_recycles seed))
         | None \<Rightarrow> Inr (boltz_bare_command input_yaml output_dir number_of_models num_recycles seed))"

definition generate_boltz_test_command :: "host \<Rightarrow> pathlike option \<Rightarrow> error + string list" where
  "generate_boltz_test_command h sif_path =
     (case sif_path of
        Some sp \<Rightarrow>
          (if truthy sif_path
           then (case resolve_container_runtime h of
                   Inl e \<Rightarrow> Inl e
                 | Inr runtime \<Rightarrow>
                     Inr [runtime, ''exec'', ''--nv'', path_str (resolve h (Path_of sp)),
                          ''boltz'', ''predict'', ''--help''])
           else Inr [''boltz'', ''predict'', ''--help''])
      | None \<Rightarrow> Inr [''boltz'', ''predict'', ''--help''])"

subsection \<open>Chai-1\<close>

text \<open>
  \<open>msa_mount = ensure_bind(msa_dir, "/msa") if msa_dir.exists() else None\<close>, and the two
  optional files (constraints, template hits): the parent directory of the file is bound
  when the file exists, and the argument is the file's name under the mount.
\<close>

definition bind_if_exists ::
  "host \<Rightarrow> bind_map \<Rightarrow> path \<Rightarrow> string \<Rightarrow> string option \<times> bind_map" where
  "bind_if_exists h bind_map pth preferred =
     (if exists h pth
      then (let (m, bind_map) = ensure_bind (resolve h) bind_map pth preferred
            in (Some m, bind_map))
      else (None, bind_map))"

definition bind_file_arg ::
  "host \<Rightarrow> bind_map \<Rightarrow> path option \<Rightarrow> string \<Rightarrow> string option \<times> bind_map" where
  "bind_file_arg h bind_map file preferred =
     (case file of
        None \<Rightarrow> (None, bind_map)
      | Some f \<Rightarrow>
          (if exists h f
           then (let (m, bind_map) = ensure_bind (resolve h) bind_map (parent f) preferred
                 in (Some (m @ ''/'' @ name f), bind_map))
           else (None, bind_map)))"

definition chai_container_command ::
  "host \<Rightarrow> path \<Rightarrow> path \<Rightarrow> path option \<Rightarrow> path \<Rightarrow> int \<Rightarrow> int \<Rightarrow> int \<Rightarrow> bool \<Rightarrow> path option
     \<Rightarrow> pathlike \<Rightarrow> error + string list" where
  "chai_container_command h input_fasta msa_dir constraints_path output_dir number_of_models
       num_recycles seed use_templates_server template_path sif_path =
     (let chai_exe = joinpath (module_dir h) ''chai.py'';
          sif = resolve h (Path_of sif_path)
      in case resolve_container_runtime h of
           Inl e \<Rightarrow> Inl e
         | Inr runtime \<Rightarrow>
             (let bind_map = [];
                  (chai_mount, bind_map) =
                     ensure_bind (resolve h) bind_map (parent chai_exe) ''/abcfold_chai'';
                  (input_mount, bind_map) =
                     ensure_bind (resolve h) bind_map (parent input_fasta) ''/input'';
                  (output_mount, bind_map) =
                     ensure_bind (resolve h) bind_map output_dir ''/output'';
                  (msa_mount, bind_map) = bind_if_exists h bind_map msa_dir ''/msa'';
                  (constraint_arg, bind_map) =
                     bind_file_arg h bind_map constraints_path ''/constraints'';
                  (template_arg, bind_map) =
                     bind_file_arg h bind_map template_path ''/templates'';
                  cmd = [runtime, ''exec'', ''--nv''];
                  cmd = cmd @ bind_args bind_map;
                  cmd = cmd @
                    [path_str sif, ''python'', chai_mount @ ''/chai.py'', ''fold'',
                     input_mount @ ''/'' @ name input_fasta];
                  cmd = cmd @
                    (case msa_mount of
                       Some m \<Rightarrow> (if m \<noteq> [] then [''--msa-directory'', m] else [])
                     | None \<Rightarrow> []);
                  cmd = cmd @
                    (case constraint_arg of
                       Some a \<Rightarrow> [''--constraint-path'', a]
                     | None \<Rightarrow> []);
                  cmd = cmd @
                    [''--num-diffn-samples'', str_int number_of_models,
                     ''--num-trunk-recycles'', str_int num_recycles,
                     ''--seed'', str_int seed];
                  cmd = cmd @ (if use_templates_server then [''--use-templates-server''] else []);
                  cmd = cmd @
                    (case template_arg of
                       Some a \<Rightarrow> [''--template-hits-path'', a]
                     | None \<Rightarrow> []);
                  cmd = cmd @ [output_mount]
              in Inr cmd))"

definition chai_bare_command ::
  "host \<Rightarrow> path \<Rightarrow> path \<Rightarrow> path option \<Rightarrow> path \<Rightarrow> int \<Rightarrow> int \<Rightarrow> int \<Rightarrow> bool \<Rightarrow> path option
     \<Rightarrow> error + string list" where
  "chai_bare_command h input_fasta msa_dir constraints_path output_dir number_of_models
       num_recycles seed use_templates_server template_path =
     (let chai_exe = joinpath (module_dir h) ''chai.py'';
          cmd = [''python'', path_str chai_exe, ''fold'', path_str input_fasta];
          cmd = cmd @ (if exists h msa_dir then [''--msa-directory'', path_str msa_dir] else []);
          cmd = cmd @
            (case constraints_path of
               Some cp \<Rightarrow> (if exists h cp then [''--constraint-path'', path_str cp] else [])
             | None \<Rightarrow> []);
          cmd = cmd @ [''--num-diffn-samples'', str_int number_of_models];
          cmd = cmd @ [''--num-trunk-recycles'', str_int num_recycles];
          cmd = cmd @ [''--seed'', str_int seed]
      in if use_templates_server \<and> template_path \<noteq> None then Inl AssertionError
         else
           (let cmd =
                  (if which h ''kalign'' = None \<and> (use_templates_server \<or> template_path \<noteq> None)
                   then cmd
                   else
                     (let cmd = cmd @ (if use_templates_server then [''--use-templates-server''] else []);
                          cmd = cmd @
                            (case template_path of
                               Some tp \<Rightarrow> [''--template-hits-path'', path_str tp]
                             | None \<Rightarrow> [])
                      in cmd));
                cmd = cmd @ [path_str output_dir]
            in Inr cmd))"

text \<open>
  \<open>template_hits_path\<close> is annotated \<open>Path | None\<close>, and a \<open>Path\<close> is always true, so
  \<open>template_path\<close> is the argument itself. \<open>input_constraints\<close> is tested for truth before
  \<open>Path\<close> is applied to it.
\<close>

definition generate_chai_command ::
  "host \<Rightarrow> pathlike \<Rightarrow> pathlike \<Rightarrow> pathlike option \<Rightarrow> pathlike \<Rightarrow> int \<Rightarrow> int \<Rightarrow> int \<Rightarrow> bool
     \<Rightarrow> path option \<Rightarrow> pathlike option \<Rightarrow> error + string list" where
  "generate_chai_command h input_fasta msa_dir input_constraints output_dir number_of_models
       num_recycles seed use_templates_server template_hits_path sif_path =
     (let input_fasta = Path_of input_fasta;
          msa_dir = Path_of msa_dir;
          output_dir = Path_of output_dir;
          constraints_path = optional_path input_constraints;
          template_path = template_hits_path
      in case sif_path of
           Some sp \<Rightarrow>
             (if truthy sif_path
              then chai_container_command h input_fasta msa_dir constraints_path output_dir
                     number_of_models num_recycles seed use_templates_server template_path sp
              else chai_bare_command h input_fasta msa_dir constraints_path output_dir
                     number_of_models num_recycles seed use_templates_server template_path)
         | None \<Rightarrow>
             chai_bare_command h input_fasta msa_dir constraints_path output_dir
               number_of_models num_recycles seed use_templates_server template_path)"

definition generate_chai_test_command :: "host \<Rightarrow> pathlike option \<Rightarrow> error + string list" where
  "generate_chai_test_command h sif_path =
     (let chai_exe = joinpath (module_dir h) ''chai.py''
      in case sif_path of
           Some sp \<Rightarrow>
             (if truthy sif_path
              then (case resolve_container_runtime h of
                      Inl e \<Rightarrow> Inl e
                    | Inr runtime \<Rightarrow>
                        Inr [runtime, ''exec'', ''--nv'', ''--bind'',
                             path_str (resolve h (parent chai_exe)) @ '':/abcfold_chai'',
                             path_str (resolve h (Path_of sp)),
                             ''python'', ''/abcfold_chai/chai.py'', ''fold'', ''--help''])
              else Inr [''python'', path_str chai_exe, ''fold'', ''--help''])
         | None \<Rightarrow> Inr [''python'', path_str chai_exe, ''fold'', ''--help''])"

section \<open>The run drivers\<close>

subsection \<open>Decoding captured output\<close>

text \<open>
  \<open>bytes.decode()\<close> with the default codec (UTF-8, strict) raises \<open>UnicodeDecodeError\<close>
  on an ill-formed sequence. A decoded text is kept in its UTF-8 form, so decoding checks
  the bytes and returns them. The marker looked for in the output is ASCII, and
  in well-formed UTF-8 a match of an ASCII text on bytes is a match on characters.
\<close>

definition in_range :: "nat \<Rightarrow> nat \<Rightarrow> char \<Rightarrow> bool" where
  "in_range lo hi c \<longleftrightarrow> lo \<le> of_char c \<and> (of_char c :: nat) \<le> hi"

definition second_of_three :: "char \<Rightarrow> char \<Rightarrow> bool" where
  "second_of_three c c1 =
     (if in_range 0xE0 0xE0 c then in_range 0xA0 0xBF c1
      else if in_range 0xED 0xED c then in_range 0x80 0x9F c1
      else in_range 0x80 0xBF c1)"

definition second_of_four :: "char \<Rightarrow> char \<Rightarrow> bool" where
  "second_of_four c c1 =
     (if in_range 0xF0 0xF0 c then in_range 0x90 0xBF c1
      else if in_range 0xF4 0xF4 c then in_range 0x80 0x8F c1
      else in_range 0x80 0xBF c1)"

fun utf8_valid :: "string \<Rightarrow> bool" where
  "utf8_valid [] = True"
| "utf8_valid (c # cs) =
     (if in_range 0x00 0x7F c then utf8_valid cs
      else if in_range 0xC2 0xDF c then
        (case cs of
           c1 # r \<Rightarrow> in_range 0x80 0xBF c1 \<and> utf8_valid r
         | _ \<Rightarrow> False)
      else if in_range 0xE0 0xEF c then
        (case cs of
           c1 # c2 # r \<Rightarrow> second_of_three c c1 \<and> in_range 0x80 0xBF c2 \<and> utf8_valid r
         | _ \<Rightarrow> False)
      else if in_range 0xF0 0xF4 c then
        (case cs of
           c1 # c2 # c3 # r \<Rightarrow>
             second_of_four c c1 \<and> in_range 0x80 0xBF c2 \<and> in_range 0x80 0xBF c3 \<and> utf8_valid r
         | _ \<Rightarrow> False)
      else False)"

definition decode :: "string \<Rightarrow> error + string" where
  "decode b = (if utf8_valid b then Inr b else Inl UnicodeDecodeError)"

subsection \<open>The world of a run\<close>

text \<open>
  A child process that has run to its end: its exit code, what it wrote to standard output
  (as the lines that iterating over \<open>proc.stdout\<close> yields) and to standard error.
\<close>

record proc =
  returncode :: int
  stdout_lines :: "string list"
  stderr_bytes :: string

text \<open>What \<open>ChaiFasta\<close> exposes after the conversion: \<open>fasta\<close>, \<open>working_dir\<close>,
  \<open>constraints\<close> and \<open>seeds\<close>.\<close>

record chai_fasta =
  cf_fasta :: pathlike
  cf_working_dir :: pathlike
  cf_constraints :: "pathlike option"
  cf_seeds :: "int list"

text \<open>
  The drivers act on the world outside through the operating system, the child process and
  two collaborators of the package whose code is not part of the two modules (the
  installation checks and the input converters \<open>BoltzYaml\<close> and \<open>ChaiFasta\<close>). All of
  these are parameters: a world of any type \<open>'w\<close> and the operations on it, each of which
  may raise.
\<close>

record 'w env =
  host_of :: "'w \<Rightarrow> host"
  mkdir_parents :: "path \<Rightarrow> 'w \<Rightarrow> error + 'w"
  open_w :: "path \<Rightarrow> 'w \<Rightarrow> error + 'w"
  write_close :: "path \<Rightarrow> string \<Rightarrow> 'w \<Rightarrow> error + 'w"
  popen :: "string list \<Rightarrow> 'w \<Rightarrow> error + proc \<times> 'w"
  mkdtemp :: "'w \<Rightarrow> error + path \<times> 'w"
  rmtree :: "path \<Rightarrow> 'w \<Rightarrow> 'w"
  check_boltz :: "pathlike option \<Rightarrow> 'w \<Rightarrow> error + 'w"
  check_chai1 :: "pathlike option \<Rightarrow> 'w \<Rightarrow> error + 'w"
  json_to_yaml :: "path \<Rightarrow> path \<Rightarrow> 'w \<Rightarrow> error + int list \<times> 'w"
  write_yaml :: "path \<Rightarrow> 'w \<Rightarrow> error + 'w"
  json_to_fasta :: "path \<Rightarrow> path \<Rightarrow> 'w \<Rightarrow> error + chai_fasta \<times> 'w"

text \<open>
  What a driver did, in order: \<open>Mkdir\<close> for a \<open>mkdir(parents=True, exist_ok=True)\<close> that
  returned, \<open>WriteYaml\<close> for a \<open>write_yaml\<close> that returned, \<open>Spawn\<close> for a child that was
  started and ran to its end, \<open>OpenW\<close> for an \<open>open(path, "w")\<close> that returned (the file
  exists and is empty), \<open>WriteText\<close> for the text written to it and flushed on close.
  Logging and the relay of the child's output to the console are left out.
\<close>

datatype event =
    Mkdir path
  | WriteYaml path
  | Spawn "string list" proc
  | OpenW path
  | WriteText path string

record 'w run_state =
  world :: 'w
  events :: "event list"

definition log :: "event \<Rightarrow> 'w \<Rightarrow> 'w run_state \<Rightarrow> 'w run_state" where
  "log e w st = \<lparr>world = w, events = events st @ [e]\<rparr>"

text \<open>
  \<open>Popen\<close> is called with \<open>stderr=subprocess.PIPE\<close> (and, by Boltz, with
  \<open>stdout=subprocess.PIPE\<close>), so \<open>proc.stderr\<close> and \<open>proc.stdout\<close> are stream objects,
  and a stream object is true.
\<close>

definition piped :: bool where
  "piped = True"

text \<open>
  \<open>for seed in seeds: body\<close> followed by \<open>return True\<close>. The body either falls through
  (\<open>None\<close>), returns a value from the function (\<open>Some b\<close>), or raises.
\<close>

fun seed_loop ::
  "(int \<Rightarrow> 's \<Rightarrow> (error + bool option) \<times> 's) \<Rightarrow> int list \<Rightarrow> 's \<Rightarrow> (error + bool) \<times> 's" where
  "seed_loop body [] st = (Inr True, st)"
| "seed_loop body (seed # seeds) st =
     (case body seed st of
        (Inl e, st1) \<Rightarrow> (Inl e, st1)
      | (Inr (Some b), st1) \<Rightarrow> (Inr b, st1)
      | (Inr None, st1) \<Rightarrow> seed_loop body seeds st1)"

subsection \<open>Boltz\<close>

text \<open>The loop \<open>for line in proc.stdout: ...; stdout += line.decode()\<close>.\<close>

fun decode_lines :: "string list \<Rightarrow> string \<Rightarrow> error + string" where
  "decode_lines [] stdout = Inr stdout"
| "decode_lines (line # lines) stdout =
     (case decode line of
        Inl e \<Rightarrow> Inl e
      | Inr text \<Rightarrow> decode_lines lines (stdout @ text))"

definition oom_marker :: string where
  "oom_marker = ''WARNING: ran out of memory''"

text \<open>The branch \<open>if proc.returncode != 0\<close> of \<open>run_boltz\<close>.\<close>

definition boltz_failure :: "'w env \<Rightarrow> path \<Rightarrow> proc \<Rightarrow> 'w run_state \<Rightarrow> (error + bool option) \<times> 'w run_state" where
  "boltz_failure env output_dir p st =
     (if piped then
        (case decode (stderr_bytes p) of
           Inl e \<Rightarrow> (Inl e, st)
         | Inr text \<Rightarrow>
             (let output_err_file = joinpath output_dir ''boltz_error.log'' in
              case open_w env output_err_file (world st) of
                Inl e \<Rightarrow> (Inl e, st)
              | Inr w1 \<Rightarrow>
                  (let st = log (OpenW output_err_file) w1 st in
                   case write_close env output_err_file text (world st) of
                     Inl e \<Rightarrow> (Inl e, st)
                   | Inr w2 \<Rightarrow> (Inr (Some False), log (WriteText output_err_file text) w2 st))))
      else (Inr (Some False), st))"

text \<open>The body of the seed loop of \<open>run_boltz\<close>.\<close>

definition boltz_seed ::
  "'w env \<Rightarrow> path \<Rightarrow> path \<Rightarrow> path \<Rightarrow> bool \<Rightarrow> int \<Rightarrow> int \<Rightarrow> pathlike option \<Rightarrow> int \<Rightarrow> 'w run_state
     \<Rightarrow> (error + bool option) \<times> 'w run_state" where
  "boltz_seed env input_json output_dir working_dir test number_of_models num_recycles sif_path
       seed st =
     (let out_file = joinpath working_dir (stem input_json @ ''_seed-'' @ str_int seed @ ''.yaml'') in
      case write_yaml env out_file (world st) of
        Inl e \<Rightarrow> (Inl e, st)
      | Inr w1 \<Rightarrow>
          (let st = log (WriteYaml out_file) w1 st in
           case (if \<not> test
                 then generate_boltz_command (host_of env (world st)) (PPath out_file)
                        (PPath output_dir) number_of_models num_recycles seed sif_path
                 else generate_boltz_test_command (host_of env (world st)) sif_path) of
             Inl e \<Rightarrow> (Inl e, st)
           | Inr cmd \<Rightarrow>
               (case popen env cmd (world st) of
                  Inl e \<Rightarrow> (Inl e, st)
                | Inr (p, w2) \<Rightarrow>
                    (let st = log (Spawn cmd p) w2 st in
                     case (if piped then decode_lines (stdout_lines p) [] else Inr []) of
                       Inl e \<Rightarrow> (Inl e, st)
                     | Inr stdout \<Rightarrow>
                         (if returncode p \<noteq> 0 then boltz_failure env output_dir p st
                          else if str_contains oom_marker stdout then (Inr (Some False), st)
                          else (Inr None, st))))))"

definition run_boltz ::
  "'w env \<Rightarrow> pathlike \<Rightarrow> pathlike \<Rightarrow> bool \<Rightarrow> bool \<Rightarrow> int \<Rightarrow> int \<Rightarrow> pathlike option \<Rightarrow> 'w
     \<Rightarrow> (error + bool) \<times> 'w run_state" where
  "run_boltz env input_json output_dir save_input test number_of_models num_recycles sif_path w =
     (let input_json = Path_of input_json;
          output_dir = Path_of output_dir;
          st = \<lparr>world = w, events = []\<rparr>
      in case check_boltz env sif_path w of
           Inl e \<Rightarrow> (Inl e, st)
         | Inr w1 \<Rightarrow>
             (case mkdtemp env w1 of
                Inl e \<Rightarrow> (Inl e, st\<lparr>world := w1\<rparr>)
              | Inr (temp_dir, w2) \<Rightarrow>
                  (let working_dir = (if save_input then output_dir else temp_dir);
                       (res, st) =
                          (case json_to_yaml env working_dir input_json w2 of
                             Inl e \<Rightarrow> (Inl e, st\<lparr>world := w2\<rparr>)
                           | Inr (seeds, w3) \<Rightarrow>
                               seed_loop
                                 (boltz_seed env input_json output_dir working_dir test
                                    number_of_models num_recycles sif_path)
                                 seeds (st\<lparr>world := w3\<rparr>))
                   in (res, st\<lparr>world := rmtree env temp_dir (world st)\<rparr>))))"

subsection \<open>Chai-1\<close>

text \<open>The branch \<open>if proc.returncode != 0\<close> of \<open>run_chai\<close>.\<close>

definition chai_failure :: "'w env \<Rightarrow> path \<Rightarrow> proc \<Rightarrow> 'w run_state \<Rightarrow> (error + bool option) \<times> 'w run_state" where
  "chai_failure env chai_output_dir p st =
     (if piped then
        (let output_err_file =
               (if exists (host_of env (world st)) chai_output_dir
                then joinpath chai_output_dir ''chai_error.log''
                else joinpath (parent chai_output_dir) ''chai_error.log'')
         in case open_w env output_err_file (world st) of
              Inl e \<Rightarrow> (Inl e, st)
            | Inr w1 \<Rightarrow>
                (let st = log (OpenW output_err_file) w1 st in
                 case decode (stderr_bytes p) of
                   Inl e \<Rightarrow> (Inl e, st)
                 | Inr text \<Rightarrow>
                     (case write_close env output_err_file text (world st) of
                        Inl e \<Rightarrow> (Inl e, st)
                      | Inr w2 \<Rightarrow> (Inr (Some False), log (WriteText output_err_file text) w2 st))))
      else (Inr (Some False), st))"

text \<open>The body of the seed loop of \<open>run_chai\<close>. The child inherits the console as its
  standard output, so nothing of it is captured.\<close>

definition chai_seed ::
  "'w env \<Rightarrow> chai_fasta \<Rightarrow> path \<Rightarrow> bool \<Rightarrow> int \<Rightarrow> int \<Rightarrow> bool \<Rightarrow> path option \<Rightarrow> pathlike option
     \<Rightarrow> int \<Rightarrow> 'w run_state \<Rightarrow> (error + bool option) \<times> 'w run_state" where
  "chai_seed env cf output_dir test number_of_models num_recycles use_templates_server
       template_hits_path sif_path seed st =
     (let chai_output_dir = joinpath output_dir (''chai_output_seed-'' @ str_int seed) in
      case (if truthy sif_path
            then (case mkdir_parents env chai_output_dir (world st) of
                    Inl e \<Rightarrow> Inl e
                  | Inr w1 \<Rightarrow> Inr (log (Mkdir chai_output_dir) w1 st))
            else Inr st) of
        Inl e \<Rightarrow> (Inl e, st)
      | Inr st \<Rightarrow>
          (case (if \<not> test
                 then generate_chai_command (host_of env (world st)) (cf_fasta cf) (cf_working_dir cf)
                        (cf_constraints cf) (PPath chai_output_dir) number_of_models num_recycles
                        seed use_templates_server template_hits_path sif_path
                 else generate_chai_test_command (host_of env (world st)) sif_path) of
             Inl e \<Rightarrow> (Inl e, st)
           | Inr cmd \<Rightarrow>
               (case popen env cmd (world st) of
                  Inl e \<Rightarrow> (Inl e, st)
                | Inr (p, w2) \<Rightarrow>
                    (let st = log (Spawn cmd p) w2 st in
                     if returncode p \<noteq> 0 then chai_failure env chai_output_dir p st
                     else (Inr None, st)))))"

definition run_chai ::
  "'w env \<Rightarrow> pathlike \<Rightarrow> pathlike \<Rightarrow> bool \<Rightarrow> bool \<Rightarrow> int \<Rightarrow> int \<Rightarrow> bool \<Rightarrow> path option
     \<Rightarrow> pathlike option \<Rightarrow> 'w \<Rightarrow> (error + bool) \<times> 'w run_state" where
  "run_chai env input_json output_dir save_input test number_of_models num_recycles
       use_templates_server template_hits_path sif_path w =
     (let input_json = Path_of input_json;
          output_dir = Path_of output_dir;
          st = \<lparr>world = w, events = []\<rparr>
      in case check_chai1 env sif_path w of
           Inl e \<Rightarrow> (Inl e, st)
         | Inr w1 \<Rightarrow>
             (case mkdtemp env w1 of
                Inl e \<Rightarrow> (Inl e, st\<lparr>world := w1\<rparr>)
              | Inr (temp_dir, w2) \<Rightarrow>
                  (let st = st\<lparr>world := w2\<rparr>;
                       working_dir = (if save_input then output_dir else temp_dir);
                       (res, st) =
                          (case (if save_input
                                 then (case mkdir_parents env working_dir (world st) of
                                         Inl e \<Rightarrow> Inl e
                                       | Inr w3 \<Rightarrow> Inr (log (Mkdir working_dir) w3 st))
                                 else Inr st) of
                             Inl e \<Rightarrow> (Inl e, st)
                           | Inr st \<Rightarrow>
                               (case json_to_fasta env working_dir input_json (world st) of
                                  Inl e \<Rightarrow> (Inl e, st)
                                | Inr (cf, w4) \<Rightarrow>
                                    seed_loop
                                      (chai_seed env cf output_dir test number_of_models
                                         num_recycles use_templates_server template_hits_path
                                         sif_path)
                                      (cf_seeds cf) (st\<lparr>world := w4\<rparr>)))
                   in (res, st\<lparr>world := rmtree env temp_dir (world st)\<rparr>))))"

section \<open>A reference host for examples\<close>

text \<open>
  The examples below run on a host without symbolic links whose working directory is
  \<open>/work\<close>: there \<open>Path.resolve\<close> makes the path absolute and removes \<open>..\<close> components
  together with the component before each.
\<close>

fun collapse :: "string list \<Rightarrow> string list \<Rightarrow> string list" where
  "collapse acc [] = rev acc"
| "collapse acc (c # cs) = (if c = ''..'' then collapse (tl acc) cs else collapse (c # acc) cs)"

definition lexical_resolve :: "path \<Rightarrow> path" where
  "lexical_resolve p =
     Path ''/'' (collapse [] ((if root p = [] then [''work''] else []) @ parts p))"

text \<open>
  Its file system is a list of directories and a list of files with their text, both under
  resolved paths. \<open>apptainer\<close> is installed and \<open>kalign\<close> is not; the package lives in
  \<open>/opt/abcfold/chai1\<close>.
\<close>

record mem =
  dirs :: "path list"
  files :: "(path \<times> string) list"

definition mem_host :: "mem \<Rightarrow> host" where
  "mem_host w =
     \<lparr>resolve = lexical_resolve,
      exists = (\<lambda>p. lexical_resolve p \<in> set (dirs w) \<or> lexical_resolve p \<in> fst ` set (files w)),
      which = (\<lambda>s. if s = ''apptainer'' then Some ''/usr/bin/apptainer'' else None),
      module_dir = Path ''/'' [''opt'', ''abcfold'', ''chai1'']\<rparr>"

definition w0 :: mem where
  "w0 = \<lparr>dirs = [Path ''/'' [''work''], Path ''/'' [''work'', ''in''], Path ''/'' [''work'', ''out'']],
         files = [(Path ''/'' [''work'', ''in'', ''x.fasta''], []),
                  (Path ''/'' [''work'', ''in'', ''hits.m8''], [])]\<rparr>"

lemmas path_eval = parse_path_def parse_root_def lexical_resolve_def path_str_def parent_def
  name_def stem_def joinpath_def
lemmas int_eval = str_int_def str_nat.simps digit_def
lemmas bind_eval = ensure_bind_def find_dest.simps suffixed_def Let_def
lemmas host_eval = mem_host_def w0_def resolve_container_runtime_def

text \<open>
  The operations of the reference host on its file system. With \<open>strict\<close>, opening a file
  for writing fails when its directory does not exist or the path is a directory, as on a
  real system; without, opening never fails. The converters write one input file and yield the seeds
  given; the installation checks pass; the behaviour of the child process is a parameter.
\<close>

definition ancestors :: "path \<Rightarrow> path list" where
  "ancestors p = map (\<lambda>k. Path (root p) (take k (parts p))) [0..<Suc (length (parts p))]"

definition inside :: "path \<Rightarrow> path \<Rightarrow> bool" where
  "inside d x \<longleftrightarrow> root x = root d \<and> take (length (parts d)) (parts x) = parts d"

definition put_file :: "path \<Rightarrow> string \<Rightarrow> mem \<Rightarrow> mem" where
  "put_file c s w = w\<lparr>files := filter (\<lambda>f. fst f \<noteq> c) (files w) @ [(c, s)]\<rparr>"

definition mem_mkdir_parents :: "path \<Rightarrow> mem \<Rightarrow> error + mem" where
  "mem_mkdir_parents p w =
     (let c = lexical_resolve p in
      if \<exists>a\<in>set (ancestors c). a \<in> fst ` set (files w) then Inl OSError
      else Inr (w\<lparr>dirs := dirs w @ filter (\<lambda>a. a \<notin> set (dirs w)) (ancestors c)\<rparr>))"

definition mem_open_w :: "bool \<Rightarrow> path \<Rightarrow> mem \<Rightarrow> error + mem" where
  "mem_open_w strict p w =
     (let c = lexical_resolve p in
      if strict \<and> c \<in> set (dirs w) then Inl OSError
      else if strict \<and> parent c \<notin> set (dirs w) then Inl FileNotFoundError
      else Inr (put_file c [] w))"

definition tmp_run :: path where
  "tmp_run = Path ''/'' [''tmp'', ''run'']"

definition with_tmp :: "mem \<Rightarrow> mem" where
  "with_tmp w = w\<lparr>dirs := dirs w @ [tmp_run]\<rparr>"

definition mem_env :: "bool \<Rightarrow> (string list \<Rightarrow> mem \<Rightarrow> error + proc \<times> mem) \<Rightarrow> int list \<Rightarrow> mem env" where
  "mem_env strict child sds =
     \<lparr>host_of = mem_host,
      mkdir_parents = mem_mkdir_parents,
      open_w = mem_open_w strict,
      write_close = (\<lambda>p s w. Inr (put_file (lexical_resolve p) s w)),
      popen = child,
      mkdtemp = (\<lambda>w. Inr (tmp_run, with_tmp w)),
      rmtree = (\<lambda>d w. w\<lparr>dirs := filter (\<lambda>x. \<not> inside d x) (dirs w),
                        files := filter (\<lambda>f. \<not> inside d (fst f)) (files w)\<rparr>),
      check_boltz = (\<lambda>sif w. Inr w),
      check_chai1 = (\<lambda>sif w. Inr w),
      json_to_yaml = (\<lambda>wd ij w. Inr (sds, w)),
      write_yaml = (\<lambda>y w. Inr (put_file (lexical_resolve y) ''yaml'' w)),
      json_to_fasta = (\<lambda>wd ij w.
         Inr (\<lparr>cf_fasta = PPath (joinpath wd ''x.fasta''), cf_working_dir = PPath wd,
               cf_constraints = None, cf_seeds = sds\<rparr>,
              put_file (lexical_resolve (joinpath wd ''x.fasta'')) ''fasta'' w))\<rparr>"

text \<open>Children: one that always ends the same way, one that fails for one seed only,
  one that, like the container runtime, fails when a directory it needs is missing, and one
  that makes its output directory before it fails.\<close>

definition ended :: "int \<Rightarrow> string list \<Rightarrow> string \<Rightarrow> proc" where
  "ended code out err = \<lparr>returncode = code, stdout_lines = out, stderr_bytes = err\<rparr>"

definition exits :: "int \<Rightarrow> string list \<Rightarrow> string \<Rightarrow> string list \<Rightarrow> mem \<Rightarrow> error + proc \<times> mem" where
  "exits code out err cmd w = Inr (ended code out err, w)"

fun arg_after :: "string \<Rightarrow> string list \<Rightarrow> string option" where
  "arg_after flag (a # b # rest) = (if a = flag then Some b else arg_after flag (b # rest))"
| "arg_after flag rest = None"

definition fails_for_seed :: "string \<Rightarrow> string \<Rightarrow> string list \<Rightarrow> mem \<Rightarrow> error + proc \<times> mem" where
  "fails_for_seed s err cmd w =
     (if arg_after ''--seed'' cmd = Some s then exits 1 [] err cmd w else exits 0 [] [] cmd w)"

definition needs_dir :: "path \<Rightarrow> string list \<Rightarrow> mem \<Rightarrow> error + proc \<times> mem" where
  "needs_dir d cmd w =
     (if d \<in> set (dirs w) then exits 0 [] [] cmd w else exits 255 [] ''no dir'' cmd w)"

definition makes_dir_then_fails :: "path \<Rightarrow> string \<Rightarrow> string list \<Rightarrow> mem \<Rightarrow> error + proc \<times> mem" where
  "makes_dir_then_fails d err cmd w = Inr (ended 1 [] err, w\<lparr>dirs := dirs w @ [d]\<rparr>)"

text \<open>A host where only the working directory \<open>/work\<close> and the input file exist.\<close>

definition work_only :: mem where
  "work_only = \<lparr>dirs = [Path ''/'' [''work'']], files = [(Path ''/'' [''work'', ''x.json''], [])]\<rparr>"

text \<open>The argument vectors that occur in the examples.\<close>

definition boltz_argv :: "string \<Rightarrow> string \<Rightarrow> string list" where
  "boltz_argv out s =
     [''boltz'', ''predict'', ''/tmp/run/x_seed-'' @ s @ ''.yaml'', ''--out_dir'', out,
      ''--override'', ''--write_full_pae'', ''--write_full_pde'', ''--diffusion_samples'', ''5'',
      ''--recycling_steps'', ''10'', ''--seed'', s]"

definition chai_argv :: "string \<Rightarrow> string list" where
  "chai_argv s =
     [''python'', ''/opt/abcfold/chai1/chai.py'', ''fold'', ''/tmp/run/x.fasta'',
      ''--msa-directory'', ''/tmp/run'', ''--num-diffn-samples'', ''5'',
      ''--num-trunk-recycles'', ''10'', ''--seed'', s, ''chai_output_seed-'' @ s]"

definition with_seed_dir :: "mem \<Rightarrow> mem" where
  "with_seed_dir w = w\<lparr>dirs := dirs w @ [Path ''/'' [''work'', ''chai_output_seed-1'']]\<rparr>"

definition demo_fasta :: "int list \<Rightarrow> chai_fasta" where
  "demo_fasta sds =
     \<lparr>cf_fasta = PPath (joinpath tmp_run ''x.fasta''), cf_working_dir = PPath tmp_run,
      cf_constraints = None, cf_seeds = sds\<rparr>"

definition boltz_container_argv :: "string list" where
  "boltz_container_argv =
     [''/usr/bin/apptainer'', ''exec'', ''--nv'', ''--bind'', ''/tmp/run:/input'', ''--bind'',
      ''/work/out:/output'', ''/work/img.sif'', ''boltz'', ''predict'', ''/input/x_seed-1.yaml'',
      ''--out_dir'', ''/output'', ''--override'', ''--write_full_pae'', ''--write_full_pde'',
      ''--diffusion_samples'', ''5'', ''--recycling_steps'', ''10'', ''--seed'', ''1'']"

definition chai_container_argv :: "string list" where
  "chai_container_argv =
     [''/usr/bin/apptainer'', ''exec'', ''--nv'', ''--bind'',
      ''/opt/abcfold/chai1:/abcfold_chai'', ''--bind'', ''/tmp/run:/input'', ''--bind'',
      ''/work/out/chai_output_seed-1:/output'', ''/work/img.sif'', ''python'',
      ''/abcfold_chai/chai.py'', ''fold'', ''/input/x.fasta'', ''--msa-directory'', ''/input'',
      ''--num-diffn-samples'', ''5'', ''--num-trunk-recycles'', ''10'', ''--seed'', ''1'',
      ''/output'']"

text \<open>
  A run with the seeds 1, 2 and 3 whose second child fails, started from \<open>work_only\<close>, and
  what it goes through: the input of a seed written into the temporary directory, the
  converted \<open>fasta\<close> file written there, and the state of either driver when the first
  seed has passed.
\<close>

definition seed_yaml :: "string \<Rightarrow> path" where
  "seed_yaml s = Path ''/'' [''tmp'', ''run'', ''x_seed-'' @ s @ ''.yaml'']"

definition seed1_written :: mem where
  "seed1_written = put_file (seed_yaml ''1'') ''yaml'' (with_tmp work_only)"

definition seed2_written :: mem where
  "seed2_written = put_file (seed_yaml ''2'') ''yaml'' seed1_written"

definition fasta_written :: mem where
  "fasta_written = put_file (Path ''/'' [''tmp'', ''run'', ''x.fasta'']) ''fasta'' (with_tmp work_only)"

definition second_fails :: "mem env" where
  "second_fails = mem_env True (fails_for_seed ''2'' ''boom'') [1, 2, 3]"

definition boltz_after_1 :: "mem run_state" where
  "boltz_after_1 =
     \<lparr>world = seed1_written,
        events = [WriteYaml (seed_yaml ''1''), Spawn (boltz_argv ''/work'' ''1'') (ended 0 [] [])]\<rparr>"

definition chai_after_1 :: "mem run_state" where
  "chai_after_1 = \<lparr>world = fasta_written, events = [Spawn (chai_argv ''1'') (ended 0 [] [])]\<rparr>"

text \<open>A run with the single seed 1 whose child fails.\<close>

definition fails_once :: "mem env" where
  "fails_once = mem_env True (exits 1 [] ''boom'') [1]"

definition in_work :: "string \<Rightarrow> path" where
  "in_work n = Path ''/'' [''work'', n]"

definition chai_argv_to :: "string \<Rightarrow> string \<Rightarrow> string list" where
  "chai_argv_to out s =
     [''python'', ''/opt/abcfold/chai1/chai.py'', ''fold'', ''/tmp/run/x.fasta'',
      ''--msa-directory'', ''/tmp/run'', ''--num-diffn-samples'', ''5'',
      ''--num-trunk-recycles'', ''10'', ''--seed'', s, out @ ''/chai_output_seed-'' @ s]"

lemmas env_eval = mem_env_def tmp_run_def with_tmp_def with_seed_dir_def demo_fasta_def mem_mkdir_parents_def mem_open_w_def put_file_def ancestors_def
  inside_def exits_def fails_for_seed_def needs_dir_def makes_dir_then_fails_def work_only_def ended_def boltz_argv_def
  chai_argv_def boltz_container_argv_def chai_container_argv_def seed_yaml_def
  seed1_written_def seed2_written_def fasta_written_def in_work_def chai_argv_to_def
  second_fails_def boltz_after_1_def chai_after_1_def fails_once_def
lemmas driver_eval = run_boltz_def run_chai_def boltz_seed_def chai_seed_def boltz_failure_def
  chai_failure_def log_def piped_def decode_def oom_marker_def
  generate_boltz_command_def boltz_container_command_def boltz_bare_command_def
  generate_boltz_test_command_def generate_chai_command_def chai_container_command_def
  chai_bare_command_def generate_chai_test_command_def optional_path_def bind_if_exists_def
  bind_file_arg_def

section \<open>Notions used in the statements\<close>

text \<open>
  A destination handed out for a preferred container path is that path, or that path with a
  numeric suffix from 2 on.
\<close>

definition named :: "string \<Rightarrow> string \<Rightarrow> bool" where
  "named preferred d \<longleftrightarrow> d = preferred \<or> (\<exists>k\<ge>2. d = suffixed preferred k)"

text \<open>
  The order in which new keys enter a dictionary: each element at its first occurrence.
\<close>

definition alloc_order :: "'a list \<Rightarrow> 'a list" where
  "alloc_order xs = foldl (\<lambda>acc x. if x \<in> set acc then acc else acc @ [x]) [] xs"

text \<open>
  The host directories a containerized command refers to, with the preferred mount names, in
  the order in which the builder asks the allocator for them.
\<close>

definition boltz_binds :: "host \<Rightarrow> pathlike \<Rightarrow> pathlike \<Rightarrow> (path \<times> string) list" where
  "boltz_binds h input_yaml output_dir =
     [(parent (resolve h (Path_of input_yaml)), ''/input''),
      (resolve h (Path_of output_dir), ''/output'')]"

definition chai_binds ::
  "host \<Rightarrow> path \<Rightarrow> path \<Rightarrow> path option \<Rightarrow> path \<Rightarrow> path option \<Rightarrow> (path \<times> string) list" where
  "chai_binds h input_fasta msa_dir constraints_path output_dir template_path =
     [(parent (joinpath (module_dir h) ''chai.py''), ''/abcfold_chai''),
      (parent input_fasta, ''/input''),
      (output_dir, ''/output'')]
     @ (if exists h msa_dir then [(msa_dir, ''/msa'')] else [])
     @ (case constraints_path of
          Some cp \<Rightarrow> (if exists h cp then [(parent cp, ''/constraints'')] else [])
        | None \<Rightarrow> [])
     @ (case template_path of
          Some tp \<Rightarrow> (if exists h tp then [(parent tp, ''/templates'')] else [])
        | None \<Rightarrow> [])"

text \<open>
  A containerized argument vector: the runtime, \<open>exec --nv\<close>, the bind pairs of a map
  that holds the resolved directories in allocation order, once each and with different
  mount names, then the image, then the invocation of the tool, which holds no further
  \<open>--bind\<close>.
\<close>

definition container_argv :: "host \<Rightarrow> (path \<times> string) list \<Rightarrow> pathlike option \<Rightarrow> string list \<Rightarrow> bool" where
  "container_argv h refs sif_path cmd \<longleftrightarrow>
     (\<exists>runtime image bm tool.
        resolve_container_runtime h = Inr runtime \<and> sif_path = Some image \<and>
        cmd = [runtime, ''exec'', ''--nv''] @ bind_args bm @ path_str (resolve h (Path_of image)) # tool \<and>
        tool \<noteq> [] \<and> ''--bind'' \<notin> set tool \<and>
        map fst bm = alloc_order (map (\<lambda>r. resolve h (fst r)) refs) \<and>
        distinct (map fst bm) \<and> distinct (map snd bm) \<and>
        length bm = card ((\<lambda>r. resolve h (fst r)) ` set refs) \<and>
        (\<forall>r\<in>set refs. \<exists>d. map_of bm (resolve h (fst r)) = Some d \<and> hd d = CHR ''/''))"



definition passes :: "(proc \<Rightarrow> bool) \<Rightarrow> (proc \<Rightarrow> bool) \<Rightarrow> proc \<Rightarrow> bool" where
  "passes undec soft p \<longleftrightarrow> returncode p = 0 \<and> \<not> undec p \<and> \<not> soft p"










definition log_only :: "event list \<Rightarrow> bool" where
  "log_only evs \<longleftrightarrow>
     (\<forall>e\<in>set evs. case e of OpenW l \<Rightarrow> True | WriteText l s \<Rightarrow> True | _ \<Rightarrow> False)"

text \<open>Every launch of a child follows directly on the creation of a per-seed directory.\<close>

definition mkdir_first :: "path \<Rightarrow> event list \<Rightarrow> bool" where
  "mkdir_first od evs \<longleftrightarrow>
     (\<forall>pre cmd p post. evs = pre @ Spawn cmd p # post \<longrightarrow>
        (\<exists>pre' seed. pre = pre' @ [Mkdir (joinpath od (''chai_output_seed-'' @ str_int seed))]))"

section \<open>Properties of the allocator\<close>

lemma find_dest_free: "find_dest p vals c d \<notin> set vals"
proof (induction p vals c d rule: find_dest.induct)
  case (1 preferred vals counter dest)
  then show ?case by (subst find_dest.simps) simp
qed

lemma find_dest_form:
  "find_dest p vals c d = d \<and> d \<notin> set vals \<or>
   d \<in> set vals \<and> (\<exists>k>c. find_dest p vals c d = suffixed p k \<and>
        (\<forall>j. c < j \<and> j < k \<longrightarrow> suffixed p j \<in> set vals))"
proof (induction p vals c d rule: find_dest.induct)
  case (1 preferred vals counter dest)
  show ?case
  proof (cases "dest \<in> set vals")
    case False
    then show ?thesis by (subst find_dest.simps) simp
  next
    case True
    let ?r = "find_dest preferred vals (counter + 1) (suffixed preferred (counter + 1))"
    have eq: "find_dest preferred vals counter dest = ?r"
      using True by (subst find_dest.simps) simp
    from "1.IH" [OF True] show ?thesis
    proof
      assume "?r = suffixed preferred (counter + 1) \<and> suffixed preferred (counter + 1) \<notin> set vals"
      then have "find_dest preferred vals counter dest = suffixed preferred (counter + 1)"
        using eq by simp
      moreover have "\<forall>j. counter < j \<and> j < counter + 1 \<longrightarrow> suffixed preferred j \<in> set vals"
        by auto
      ultimately show ?thesis using True by (intro disjI2 conjI exI [of _ "counter + 1"]) auto
    next
      assume "suffixed preferred (counter + 1) \<in> set vals \<and>
        (\<exists>k>counter + 1. ?r = suffixed preferred k \<and>
          (\<forall>j. counter + 1 < j \<and> j < k \<longrightarrow> suffixed preferred j \<in> set vals))"
      then obtain k where k: "counter + 1 < k" "?r = suffixed preferred k"
        "\<forall>j. counter + 1 < j \<and> j < k \<longrightarrow> suffixed preferred j \<in> set vals"
        and t: "suffixed preferred (counter + 1) \<in> set vals" by blast
      have "\<forall>j. counter < j \<and> j < k \<longrightarrow> suffixed preferred j \<in> set vals"
      proof (intro allI impI)
        fix j assume "counter < j \<and> j < k"
        then show "suffixed preferred j \<in> set vals"
          using k(3) t by (cases "j = counter + 1") auto
      qed
      with k True eq show ?thesis by (intro disjI2 conjI exI [of _ k]) auto
    qed
  qed
qed


lemma map_of_distinct_vals_inj:
  "distinct (map snd bm) \<Longrightarrow> map_of bm a = Some d \<Longrightarrow> map_of bm b = Some d \<Longrightarrow> a = b"
proof (induction bm)
  case Nil
  then show ?case by simp
next
  case (Cons e bm)
  obtain k v where e: "e = (k, v)" by (cases e)
  have notin: "\<And>x. map_of bm x = Some v \<Longrightarrow> False"
  proof -
    fix x assume "map_of bm x = Some v"
    then have "(x, v) \<in> set bm" by (rule map_of_SomeD)
    then have "v \<in> snd ` set bm" by force
    with Cons.prems(1) e show False by simp
  qed
  show ?case
  proof (cases "a = k"; cases "b = k")
    assume "a = k" "b = k" then show ?thesis by simp
  next
    assume "a = k" "b \<noteq> k"
    with Cons.prems e have "map_of bm b = Some v" by simp
    with notin show ?thesis by blast
  next
    assume "a \<noteq> k" "b = k"
    with Cons.prems e have "map_of bm a = Some v" by simp
    with notin show ?thesis by blast
  next
    assume "a \<noteq> k" "b \<noteq> k"
    with Cons.prems e Cons.IH show ?thesis by simp
  qed
qed

lemma ensure_bind_known:
  "map_of bm (rslv p) = Some d \<Longrightarrow> ensure_bind rslv bm p preferred = (d, bm)"
  by (simp add: ensure_bind_def)

lemma ensure_bind_new:
  "map_of bm (rslv p) = None \<Longrightarrow>
   ensure_bind rslv bm p preferred =
     (find_dest preferred (map snd bm) 1 preferred,
      bm @ [(rslv p, find_dest preferred (map snd bm) 1 preferred)])"
  by (simp add: ensure_bind_def Let_def)

lemma ensure_bind_cases:
  assumes "ensure_bind rslv bm p preferred = (d, bm')"
  obtains (known) "map_of bm (rslv p) = Some d" "bm' = bm"
  | (new) "map_of bm (rslv p) = None" "d = find_dest preferred (map snd bm) 1 preferred"
      "bm' = bm @ [(rslv p, d)]"
proof (cases "map_of bm (rslv p)")
  case None
  with assms ensure_bind_new [of bm rslv p preferred] show ?thesis by (intro new) auto
next
  case (Some x)
  with assms ensure_bind_known [of bm rslv p x preferred] show ?thesis by (intro known) auto
qed

lemma ensure_bind_distinct:
  assumes "ensure_bind rslv bm p preferred = (d, bm')"
    and "distinct (map fst bm)" and "distinct (map snd bm)"
  shows "distinct (map fst bm') \<and> distinct (map snd bm')"
  using assms(1)
proof (cases rule: ensure_bind_cases)
  case known
  with assms show ?thesis by simp
next
  case new
  from new(1) have "rslv p \<notin> fst ` set bm" by (simp add: map_of_eq_None_iff)
  moreover have "d \<notin> snd ` set bm" using find_dest_free [of preferred "map snd bm" 1 preferred] new(2)
    by simp
  ultimately show ?thesis using assms new(3) by simp
qed

lemma ensure_bind_lookup:
  assumes "ensure_bind rslv bm p preferred = (d, bm')"
  shows "map_of bm' (rslv p) = Some d"
  using assms
proof (cases rule: ensure_bind_cases)
  case known
  then show ?thesis by simp
next
  case new
  then show ?thesis by (simp add: map_add_def)
qed

lemma ensure_bind_keeps:
  assumes "ensure_bind rslv bm p preferred = (d, bm')" and "map_of bm q = Some x"
  shows "map_of bm' q = Some x"
  using assms(1)
proof (cases rule: ensure_bind_cases)
  case known
  with assms show ?thesis by simp
next
  case new
  with assms(2) show ?thesis by (simp add: map_add_def)
qed

lemma ensure_bind_keys:
  assumes "ensure_bind rslv bm p preferred = (d, bm')"
  shows "map fst bm' = (if rslv p \<in> set (map fst bm) then map fst bm else map fst bm @ [rslv p])"
  using assms
proof (cases rule: ensure_bind_cases)
  case known
  then have "rslv p \<in> fst ` set bm" by (metis map_of_eq_None_iff option.distinct(1))
  with known show ?thesis by simp
next
  case new
  then have "rslv p \<notin> fst ` set bm" by (simp add: map_of_eq_None_iff)
  with new show ?thesis by simp
qed

lemma ensure_bind_name:
  assumes "ensure_bind rslv bm p preferred = (d, bm')" and "map_of bm (rslv p) = None"
  shows "preferred \<notin> snd ` set bm \<and> d = preferred \<or>
         preferred \<in> snd ` set bm \<and> (\<exists>k\<ge>2. d = suffixed preferred k \<and>
            (\<forall>j. 2 \<le> j \<and> j < k \<longrightarrow> suffixed preferred j \<in> snd ` set bm))"
proof -
  from assms have d: "d = find_dest preferred (map snd bm) 1 preferred"
    by (simp add: ensure_bind_new)
  from find_dest_form [of preferred "map snd bm" 1 preferred] show ?thesis
  proof
    assume "find_dest preferred (map snd bm) 1 preferred = preferred \<and> preferred \<notin> set (map snd bm)"
    with d show ?thesis by simp
  next
    assume "preferred \<in> set (map snd bm) \<and>
      (\<exists>k>1. find_dest preferred (map snd bm) 1 preferred = suffixed preferred k \<and>
        (\<forall>j. 1 < j \<and> j < k \<longrightarrow> suffixed preferred j \<in> set (map snd bm)))"
    then obtain k where "preferred \<in> set (map snd bm)" "1 < k"
      "find_dest preferred (map snd bm) 1 preferred = suffixed preferred k"
      "\<forall>j. 1 < j \<and> j < k \<longrightarrow> suffixed preferred j \<in> set (map snd bm)" by blast
    with d show ?thesis by (intro disjI2 conjI exI [of _ k]) auto
  qed
qed


lemma ensure_binds_Cons:
  assumes "ensure_binds rslv bm ((p, preferred) # reqs) = (ds, bm')"
  obtains d bm1 ds1 where "ensure_bind rslv bm p preferred = (d, bm1)"
    and "ensure_binds rslv bm1 reqs = (ds1, bm')" and "ds = d # ds1"
  using assms by (auto split: prod.splits)

lemma ensure_binds_props:
  assumes "ensure_binds rslv bm reqs = (ds, bm')"
    and "distinct (map fst bm)" and "distinct (map snd bm)"
  shows "distinct (map fst bm') \<and> distinct (map snd bm') \<and> length ds = length reqs \<and>
         (\<forall>q x. map_of bm q = Some x \<longrightarrow> map_of bm' q = Some x) \<and>
         (\<forall>i<length reqs. map_of bm' (rslv (fst (reqs ! i))) = Some (ds ! i)) \<and>
         set (map fst bm') = set (map fst bm) \<union> rslv ` fst ` set reqs"
  using assms
proof (induction reqs arbitrary: bm ds)
  case Nil
  then show ?case by simp
next
  case (Cons req reqs)
  obtain p preferred where req: "req = (p, preferred)" by (cases req)
  from Cons.prems(1) have "ensure_binds rslv bm ((p, preferred) # reqs) = (ds, bm')"
    unfolding req .
  then obtain d bm1 ds1 where
    step: "ensure_bind rslv bm p preferred = (d, bm1)"
    and rest: "ensure_binds rslv bm1 reqs = (ds1, bm')" and ds: "ds = d # ds1"
    by (rule ensure_binds_Cons)
  from ensure_bind_distinct [OF step Cons.prems(2,3)]
  have inv1: "distinct (map fst bm1)" "distinct (map snd bm1)" by simp_all
  from Cons.IH [OF rest inv1]
  have ih: "distinct (map fst bm')" "distinct (map snd bm')" "length ds1 = length reqs"
    "\<forall>q x. map_of bm1 q = Some x \<longrightarrow> map_of bm' q = Some x"
    "\<forall>i<length reqs. map_of bm' (rslv (fst (reqs ! i))) = Some (ds1 ! i)"
    "set (map fst bm') = set (map fst bm1) \<union> rslv ` fst ` set reqs" by simp_all
  have keep: "\<forall>q x. map_of bm q = Some x \<longrightarrow> map_of bm' q = Some x"
    using ensure_bind_keeps [OF step] ih(4) by blast
  have first: "map_of bm' (rslv p) = Some d"
    using ensure_bind_lookup [OF step] ih(4) by blast
  have look: "\<forall>i<length (req # reqs). map_of bm' (rslv (fst ((req # reqs) ! i))) = Some (ds ! i)"
  proof (intro allI impI)
    fix i assume "i < length (req # reqs)"
    then show "map_of bm' (rslv (fst ((req # reqs) ! i))) = Some (ds ! i)"
      using first ih(5) req ds by (cases i) auto
  qed
  have keys: "set (map fst bm') = set (map fst bm) \<union> rslv ` fst ` set (req # reqs)"
    using ih(6) ensure_bind_keys [OF step] req by (auto split: if_splits)
  from ih(1,2,3) ds keep look keys show ?case by simp
qed

lemma ensure_binds_names:
  assumes "ensure_binds rslv bm reqs = (ds, bm')"
  shows "\<forall>i<length reqs. map_of bm (rslv (fst (reqs ! i))) = Some (ds ! i) \<or>
           (\<exists>j\<le>i. rslv (fst (reqs ! j)) = rslv (fst (reqs ! i)) \<and> named (snd (reqs ! j)) (ds ! i))"
  using assms
proof (induction reqs arbitrary: bm ds)
  case Nil
  then show ?case by simp
next
  case (Cons req reqs)
  obtain p preferred where req: "req = (p, preferred)" by (cases req)
  from Cons.prems(1) have "ensure_binds rslv bm ((p, preferred) # reqs) = (ds, bm')"
    unfolding req .
  then obtain d bm1 ds1 where
    step: "ensure_bind rslv bm p preferred = (d, bm1)"
    and rest: "ensure_binds rslv bm1 reqs = (ds1, bm')" and ds: "ds = d # ds1"
    by (rule ensure_binds_Cons)
  note ih = Cons.IH [OF rest]
  have head: "map_of bm (rslv p) = Some d \<or> named preferred d"
    using step
  proof (cases rule: ensure_bind_cases)
    case known
    then show ?thesis by simp
  next
    case new
    from ensure_bind_name [OF step new(1)] show ?thesis by (auto simp: named_def)
  qed
  show ?case
  proof (intro allI impI)
    fix i assume i: "i < length (req # reqs)"
    show "map_of bm (rslv (fst ((req # reqs) ! i))) = Some (ds ! i) \<or>
           (\<exists>j\<le>i. rslv (fst ((req # reqs) ! j)) = rslv (fst ((req # reqs) ! i)) \<and>
              named (snd ((req # reqs) ! j)) (ds ! i))"
    proof (cases i)
      case 0
      with head req ds show ?thesis by auto
    next
      case (Suc n)
      with i have n: "n < length reqs" by simp
      from ih n have "map_of bm1 (rslv (fst (reqs ! n))) = Some (ds1 ! n) \<or>
           (\<exists>j\<le>n. rslv (fst (reqs ! j)) = rslv (fst (reqs ! n)) \<and> named (snd (reqs ! j)) (ds1 ! n))"
        by blast
      then show ?thesis
      proof
        assume in1: "map_of bm1 (rslv (fst (reqs ! n))) = Some (ds1 ! n)"
        from step show ?thesis
        proof (cases rule: ensure_bind_cases)
          case known
          with in1 Suc ds show ?thesis by simp
        next
          case new
          show ?thesis
          proof (cases "rslv (fst (reqs ! n)) = rslv p")
            case True
            with in1 ensure_bind_lookup [OF step] have "ds1 ! n = d" by simp
            moreover from head new(1) have "named preferred d" by simp
            ultimately have "rslv (fst ((req # reqs) ! 0)) = rslv (fst ((req # reqs) ! i)) \<and>
              named (snd ((req # reqs) ! 0)) (ds ! i)"
              using True Suc req ds by simp
            then show ?thesis by blast
          next
            case False
            with in1 new(3) have "map_of bm (rslv (fst (reqs ! n))) = Some (ds1 ! n)"
              by (simp add: map_add_def split: option.splits if_splits)
            with Suc ds show ?thesis by simp
          qed
        qed
      next
        assume "\<exists>j\<le>n. rslv (fst (reqs ! j)) = rslv (fst (reqs ! n)) \<and> named (snd (reqs ! j)) (ds1 ! n)"
        then obtain j where "j \<le> n" "rslv (fst (reqs ! j)) = rslv (fst (reqs ! n))"
          "named (snd (reqs ! j)) (ds1 ! n)" by blast
        then have "Suc j \<le> i \<and> rslv (fst ((req # reqs) ! Suc j)) = rslv (fst ((req # reqs) ! i)) \<and>
              named (snd ((req # reqs) ! Suc j)) (ds ! i)"
          using Suc ds by simp
        then show ?thesis by blast
      qed
    qed
  qed
qed

lemma filter_key_single:
  "distinct (map fst bm) \<Longrightarrow> map_of bm k = Some d \<Longrightarrow> filter (\<lambda>e. fst e = k) bm = [(k, d)]"
proof (induction bm)
  case Nil
  then show ?case by simp
next
  case (Cons e bm)
  obtain a b where e: "e = (a, b)" by (cases e)
  show ?case
  proof (cases "a = k")
    case True
    with Cons.prems e have "k \<notin> fst ` set bm" and "b = d" by auto
    then have "filter (\<lambda>e. fst e = k) bm = []" by (auto simp: filter_empty_conv)
    with True e \<open>b = d\<close> show ?thesis by simp
  next
    case False
    with Cons e show ?thesis by simp
  qed
qed

lemma ensure_binds_append:
  "ensure_binds rslv bm (xs @ ys) =
     (let (d1, bm1) = ensure_binds rslv bm xs; (d2, bm2) = ensure_binds rslv bm1 ys
      in (d1 @ d2, bm2))"
  by (induction xs arbitrary: bm) (auto split: prod.splits)

lemma ensure_binds_order:
  "ensure_binds rslv bm reqs = (ds, bm') \<Longrightarrow>
   map fst bm' = foldl (\<lambda>acc x. if x \<in> set acc then acc else acc @ [x]) (map fst bm)
                   (map (\<lambda>r. rslv (fst r)) reqs)"
proof (induction reqs arbitrary: bm ds)
  case Nil
  then show ?case by simp
next
  case (Cons req reqs)
  obtain p preferred where req: "req = (p, preferred)" by (cases req)
  from Cons.prems(1) have "ensure_binds rslv bm ((p, preferred) # reqs) = (ds, bm')"
    unfolding req .
  then obtain d bm1 ds1 where
    step: "ensure_bind rslv bm p preferred = (d, bm1)"
    and rest: "ensure_binds rslv bm1 reqs = (ds1, bm')" and ds: "ds = d # ds1"
    by (rule ensure_binds_Cons)
  from Cons.IH [OF rest] ensure_bind_keys [OF step] req show ?case by simp
qed

lemma named_hd: "named preferred d \<Longrightarrow> preferred \<noteq> [] \<Longrightarrow> hd d = hd preferred"
  by (auto simp: named_def suffixed_def)

lemma ensure_binds_shape:
  assumes run: "ensure_binds rslv [] refs = (ds, bm)"
    and slash: "\<forall>r\<in>set refs. snd r \<noteq> [] \<and> hd (snd r) = CHR ''/''"
  shows "map fst bm = alloc_order (map (\<lambda>r. rslv (fst r)) refs) \<and>
         distinct (map fst bm) \<and> distinct (map snd bm) \<and>
         length bm = card ((\<lambda>r. rslv (fst r)) ` set refs) \<and>
         (\<forall>r\<in>set refs. \<exists>d. map_of bm (rslv (fst r)) = Some d \<and> hd d = CHR ''/'') \<and>
         length ds = length refs \<and> (\<forall>d\<in>set ds. hd d = CHR ''/'')"
proof -
  from ensure_binds_props [OF run]
  have p: "distinct (map fst bm)" "distinct (map snd bm)" "length ds = length refs"
    "\<forall>i<length refs. map_of bm (rslv (fst (refs ! i))) = Some (ds ! i)"
    "set (map fst bm) = rslv ` fst ` set refs" by simp_all
  have order: "map fst bm = alloc_order (map (\<lambda>r. rslv (fst r)) refs)"
    using ensure_binds_order [OF run] by (simp add: alloc_order_def)
  have "length bm = length (map fst bm)" by simp
  also have "\<dots> = card (set (map fst bm))" using p(1) by (simp only: distinct_card)
  also have "\<dots> = card ((\<lambda>r. rslv (fst r)) ` set refs)" using p(5) by (simp add: image_image)
  finally have len: "length bm = card ((\<lambda>r. rslv (fst r)) ` set refs)" .
  have hd_ds: "\<forall>i<length refs. hd (ds ! i) = CHR ''/''"
  proof (intro allI impI)
    fix i assume i: "i < length refs"
    with ensure_binds_names [OF run] obtain j where
      j: "j \<le> i" "named (snd (refs ! j)) (ds ! i)" by auto
    from j(1) i have "refs ! j \<in> set refs" by simp
    with slash have "snd (refs ! j) \<noteq> []" "hd (snd (refs ! j)) = CHR ''/''" by simp_all
    with named_hd [OF j(2)] show "hd (ds ! i) = CHR ''/''" by simp
  qed
  have look: "\<forall>r\<in>set refs. \<exists>d. map_of bm (rslv (fst r)) = Some d \<and> hd d = CHR ''/''"
  proof
    fix r assume "r \<in> set refs"
    then obtain i where "i < length refs" "r = refs ! i" by (auto simp: in_set_conv_nth)
    with p(4) hd_ds show "\<exists>d. map_of bm (rslv (fst r)) = Some d \<and> hd d = CHR ''/''" by simp
  qed
  have all: "\<forall>d\<in>set ds. hd d = CHR ''/''"
    using hd_ds p(3) by (auto simp: in_set_conv_nth)
  from order p(1,2,3) len look all show ?thesis by simp
qed

lemma str_nat_digits: "set (str_nat n) \<subseteq> set ''0123456789''"
proof (induction n rule: str_nat.induct)
  case (1 n)
  have d: "\<And>k. k < 10 \<Longrightarrow> digit k \<in> set ''0123456789''"
    by (drule below_ten) (auto simp: digit_def)
  show ?case
  proof (cases "n < 10")
    case True
    with d [of n] show ?thesis by (subst str_nat.simps) simp
  next
    case False
    with 1 d [of "n mod 10"] show ?thesis by (subst str_nat.simps) simp
  qed
qed

lemma str_int_not_bind: "str_int i \<noteq> ''--bind''"
proof
  assume e: "str_int i = ''--bind''"
  show False
  proof (cases "i < 0")
    case True
    with e have "str_nat (nat (- i)) = ''-bind''" by (simp add: str_int_def)
    then have "CHR ''-'' \<in> set (str_nat (nat (- i)))" by simp
    with str_nat_digits show False by fastforce
  next
    case False
    with e have "str_nat (nat i) = ''--bind''" by (simp add: str_int_def)
    then have "CHR ''-'' \<in> set (str_nat (nat i))" by simp
    with str_nat_digits show False by fastforce
  qed
qed

lemma slash_not_bind: "hd d = CHR ''/'' \<Longrightarrow> d \<noteq> ''--bind''"
  by auto

lemma with_slash_not_bind: "a @ ''/'' @ b \<noteq> ''--bind''"
proof
  assume "a @ ''/'' @ b = ''--bind''"
  then have "CHR ''/'' \<in> set ''--bind''" by (metis in_set_conv_decomp append_Cons append_Nil)
  then show False by simp
qed


lemma boltz_container_shape:
  assumes "boltz_container_command h iy od n r s sp = Inr cmd"
  shows "container_argv h [(parent iy, ''/input''), (od, ''/output'')] (Some sp) cmd"
proof -
  let ?refs = "[(parent iy, ''/input''), (od, ''/output'')]"
  obtain runtime where rt: "resolve_container_runtime h = Inr runtime"
    using assms by (auto simp: boltz_container_command_def split: sum.splits)
  obtain input_mount bm1 where b1: "ensure_bind (resolve h) [] (parent iy) ''/input'' = (input_mount, bm1)"
    by (cases "ensure_bind (resolve h) [] (parent iy) ''/input''")
  obtain output_mount bm2 where b2: "ensure_bind (resolve h) bm1 od ''/output'' = (output_mount, bm2)"
    by (cases "ensure_bind (resolve h) bm1 od ''/output''")
  let ?tool = "[''boltz'', ''predict'', input_mount @ ''/'' @ name iy, ''--out_dir'', output_mount,
     ''--override'', ''--write_full_pae'', ''--write_full_pde'',
     ''--diffusion_samples'', str_int n, ''--recycling_steps'', str_int r, ''--seed'', str_int s]"
  have cmd: "cmd = [runtime, ''exec'', ''--nv''] @ bind_args bm2 @ path_str (resolve h (Path_of sp)) # ?tool"
    using assms rt b1 b2 by (simp add: boltz_container_command_def)
  have run: "ensure_binds (resolve h) [] ?refs = ([input_mount, output_mount], bm2)"
    using b1 b2 by simp
  have "\<forall>r\<in>set ?refs. snd r \<noteq> [] \<and> hd (snd r) = CHR ''/''" by simp
  from ensure_binds_shape [OF run this]
  have shape: "map fst bm2 = alloc_order (map (\<lambda>r. resolve h (fst r)) ?refs)"
    "distinct (map fst bm2)" "distinct (map snd bm2)"
    "length bm2 = card ((\<lambda>r. resolve h (fst r)) ` set ?refs)"
    "\<forall>r\<in>set ?refs. \<exists>d. map_of bm2 (resolve h (fst r)) = Some d \<and> hd d = CHR ''/''"
    "\<forall>d\<in>set [input_mount, output_mount]. hd d = CHR ''/''"
    by blast+
  from shape(6) have "output_mount \<noteq> ''--bind''" by (auto dest: slash_not_bind)
  then have nb: "''--bind'' \<notin> set ?tool"
    using str_int_not_bind [of n] str_int_not_bind [of r] str_int_not_bind [of s]
      with_slash_not_bind [of input_mount "name iy"]
    by (simp del: append.simps)
  have ne: "?tool \<noteq> []" by simp
  show ?thesis
    unfolding container_argv_def
    using rt cmd ne nb shape(1-5) by blast
qed


lemma bind_if_exists_run:
  assumes "bind_if_exists h bm p preferred = (m, bm')"
  shows "\<exists>ds. ensure_binds (resolve h) bm (if exists h p then [(p, preferred)] else []) = (ds, bm') \<and>
           (case m of None \<Rightarrow> ds = [] | Some d \<Rightarrow> ds = [d])"
  using assms by (auto simp: bind_if_exists_def split: if_splits prod.splits)

lemma bind_file_arg_run:
  assumes "bind_file_arg h bm fl preferred = (arg, bm')"
  shows "\<exists>ds. ensure_binds (resolve h) bm
              (case fl of
                 Some f \<Rightarrow> (if exists h f then [(parent f, preferred)] else [])
               | None \<Rightarrow> []) = (ds, bm') \<and>
           (case arg of None \<Rightarrow> True | Some a \<Rightarrow> a \<noteq> ''--bind'')"
proof (cases fl)
  case None
  with assms show ?thesis by (auto simp: bind_file_arg_def)
next
  case (Some f)
  show ?thesis
  proof (cases "exists h f")
    case False
    with Some assms show ?thesis by (auto simp: bind_file_arg_def)
  next
    case True
    obtain d bm1 where b: "ensure_bind (resolve h) bm (parent f) preferred = (d, bm1)"
      by (cases "ensure_bind (resolve h) bm (parent f) preferred")
    with Some True assms have "arg = Some (d @ ''/'' @ name f)" "bm' = bm1"
      by (auto simp: bind_file_arg_def)
    with Some True b with_slash_not_bind [of d "name f"] show ?thesis by simp
  qed
qed

lemma chai_container_shape:
  assumes "chai_container_command h fa msa cp od n r s uts tp sp = Inr cmd"
  shows "container_argv h (chai_binds h fa msa cp od tp) (Some sp) cmd"
proof -
  let ?exe = "joinpath (module_dir h) ''chai.py''"
  let ?l1 = "[(parent ?exe, ''/abcfold_chai''), (parent fa, ''/input''), (od, ''/output'')]"
  let ?l2 = "if exists h msa then [(msa, ''/msa'')] else []"
  let ?l3 = "case cp of Some c \<Rightarrow> (if exists h c then [(parent c, ''/constraints'')] else [])
             | None \<Rightarrow> []"
  let ?l4 = "case tp of Some t \<Rightarrow> (if exists h t then [(parent t, ''/templates'')] else [])
             | None \<Rightarrow> []"
  have refs: "chai_binds h fa msa cp od tp = ?l1 @ ?l2 @ ?l3 @ ?l4"
    by (simp add: chai_binds_def)
  obtain runtime where rt: "resolve_container_runtime h = Inr runtime"
    using assms by (auto simp: chai_container_command_def Let_def split: sum.splits)
  obtain chai_mount bm1 where
    b1: "ensure_bind (resolve h) [] (parent ?exe) ''/abcfold_chai'' = (chai_mount, bm1)"
    by (cases "ensure_bind (resolve h) [] (parent ?exe) ''/abcfold_chai''")
  obtain input_mount bm2 where
    b2: "ensure_bind (resolve h) bm1 (parent fa) ''/input'' = (input_mount, bm2)"
    by (cases "ensure_bind (resolve h) bm1 (parent fa) ''/input''")
  obtain output_mount bm3 where
    b3: "ensure_bind (resolve h) bm2 od ''/output'' = (output_mount, bm3)"
    by (cases "ensure_bind (resolve h) bm2 od ''/output''")
  obtain msa_mount bm4 where b4: "bind_if_exists h bm3 msa ''/msa'' = (msa_mount, bm4)"
    by (cases "bind_if_exists h bm3 msa ''/msa''")
  obtain constraint_arg bm5 where
    b5: "bind_file_arg h bm4 cp ''/constraints'' = (constraint_arg, bm5)"
    by (cases "bind_file_arg h bm4 cp ''/constraints''")
  obtain template_arg bm6 where
    b6: "bind_file_arg h bm5 tp ''/templates'' = (template_arg, bm6)"
    by (cases "bind_file_arg h bm5 tp ''/templates''")
  let ?tool = "[''python'', chai_mount @ ''/chai.py'', ''fold'', input_mount @ ''/'' @ name fa]
     @ (case msa_mount of Some m \<Rightarrow> (if m \<noteq> [] then [''--msa-directory'', m] else []) | None \<Rightarrow> [])
     @ (case constraint_arg of Some a \<Rightarrow> [''--constraint-path'', a] | None \<Rightarrow> [])
     @ [''--num-diffn-samples'', str_int n, ''--num-trunk-recycles'', str_int r, ''--seed'', str_int s]
     @ (if uts then [''--use-templates-server''] else [])
     @ (case template_arg of Some a \<Rightarrow> [''--template-hits-path'', a] | None \<Rightarrow> [])
     @ [output_mount]"
  have cmd: "cmd = [runtime, ''exec'', ''--nv''] @ bind_args bm6 @ path_str (resolve h (Path_of sp)) # ?tool"
    using assms rt b1 b2 b3 b4 b5 b6 by (simp add: chai_container_command_def Let_def)
  have r1: "ensure_binds (resolve h) [] ?l1 = ([chai_mount, input_mount, output_mount], bm3)"
    using b1 b2 b3 by simp
  from bind_if_exists_run [OF b4] obtain ds2 where
    r2: "ensure_binds (resolve h) bm3 ?l2 = (ds2, bm4)"
    and m2: "case msa_mount of None \<Rightarrow> ds2 = [] | Some d \<Rightarrow> ds2 = [d]" by blast
  from bind_file_arg_run [OF b5] obtain ds3 where
    r3: "ensure_binds (resolve h) bm4 ?l3 = (ds3, bm5)"
    and a3: "case constraint_arg of None \<Rightarrow> True | Some a \<Rightarrow> a \<noteq> ''--bind''" by blast
  from bind_file_arg_run [OF b6] obtain ds4 where
    r4: "ensure_binds (resolve h) bm5 ?l4 = (ds4, bm6)"
    and a4: "case template_arg of None \<Rightarrow> True | Some a \<Rightarrow> a \<noteq> ''--bind''" by blast
  have run: "ensure_binds (resolve h) [] (chai_binds h fa msa cp od tp)
               = ([chai_mount, input_mount, output_mount] @ ds2 @ ds3 @ ds4, bm6)"
    unfolding refs using r1 r2 r3 r4 by (simp only: ensure_binds_append Let_def prod.case)
  have slash: "\<forall>r\<in>set (chai_binds h fa msa cp od tp). snd r \<noteq> [] \<and> hd (snd r) = CHR ''/''"
    by (auto simp: chai_binds_def split: option.splits if_splits)
  from ensure_binds_shape [OF run slash]
  have shape: "map fst bm6 = alloc_order (map (\<lambda>r. resolve h (fst r)) (chai_binds h fa msa cp od tp))"
    "distinct (map fst bm6)" "distinct (map snd bm6)"
    "length bm6 = card ((\<lambda>r. resolve h (fst r)) ` set (chai_binds h fa msa cp od tp))"
    "\<forall>r\<in>set (chai_binds h fa msa cp od tp). \<exists>d. map_of bm6 (resolve h (fst r)) = Some d \<and> hd d = CHR ''/''"
    "\<forall>d\<in>set ([chai_mount, input_mount, output_mount] @ ds2 @ ds3 @ ds4). hd d = CHR ''/''"
    by blast+
  from shape(6) have out: "output_mount \<noteq> ''--bind''" by (auto dest: slash_not_bind)
  have msa_ok: "case msa_mount of None \<Rightarrow> True | Some m \<Rightarrow> m \<noteq> ''--bind''"
  proof (cases msa_mount)
    case None
    then show ?thesis by simp
  next
    case (Some m)
    with m2 have "m \<in> set ds2" by simp
    with shape(6) have "hd m = CHR ''/''" by simp
    with Some show ?thesis by (auto dest: slash_not_bind)
  qed
  have t1: "''--bind'' \<notin> set [''python'', chai_mount @ ''/chai.py'', ''fold'', input_mount @ ''/'' @ name fa]"
    using with_slash_not_bind [of chai_mount "''chai.py''"] with_slash_not_bind [of input_mount "name fa"]
    by (simp del: append.simps)
  have t2: "''--bind'' \<notin> set (case msa_mount of Some m \<Rightarrow> (if m \<noteq> [] then [''--msa-directory'', m] else []) | None \<Rightarrow> [])"
    using msa_ok by (auto split: option.splits)
  have t3: "''--bind'' \<notin> set (case constraint_arg of Some a \<Rightarrow> [''--constraint-path'', a] | None \<Rightarrow> [])"
    using a3 by (auto split: option.splits)
  have t4: "''--bind'' \<notin> set [''--num-diffn-samples'', str_int n, ''--num-trunk-recycles'', str_int r, ''--seed'', str_int s]"
    using str_int_not_bind [of n] str_int_not_bind [of r] str_int_not_bind [of s] by simp
  have t5: "''--bind'' \<notin> set (if uts then [''--use-templates-server''] else [])" by simp
  have t6: "''--bind'' \<notin> set (case template_arg of Some a \<Rightarrow> [''--template-hits-path'', a] | None \<Rightarrow> [])"
    using a4 by (auto split: option.splits)
  have nb: "''--bind'' \<notin> set ?tool"
    using t1 t2 t3 t4 t5 t6 out by (simp only: set_append Un_iff list.set insert_iff empty_iff) blast
  have ne: "?tool \<noteq> []" by simp
  show ?thesis
    unfolding container_argv_def
    using rt cmd ne nb shape(1-5) by blast
qed

lemma boltz_test_shape:
  assumes "truthy sif_path" and "generate_boltz_test_command h sif_path = Inr cmd"
  shows "container_argv h [] sif_path cmd"
proof -
  from assms(1) obtain sp where sp: "sif_path = Some sp" by (cases sif_path) auto
  from assms sp obtain runtime where rt: "resolve_container_runtime h = Inr runtime"
    by (auto simp: generate_boltz_test_command_def split: sum.splits)
  with assms sp have "cmd = [runtime, ''exec'', ''--nv''] @ bind_args [] @
      path_str (resolve h (Path_of sp)) # [''boltz'', ''predict'', ''--help'']"
    by (auto simp: generate_boltz_test_command_def)
  with rt sp show ?thesis
    unfolding container_argv_def
    by (intro exI [of _ runtime] exI [of _ sp] exI [of _ "[]"]
          exI [of _ "[''boltz'', ''predict'', ''--help'']"])
       (simp add: alloc_order_def)
qed

lemma chai_test_shape:
  assumes "truthy sif_path" and "generate_chai_test_command h sif_path = Inr cmd"
  shows "container_argv h [(parent (joinpath (module_dir h) ''chai.py''), ''/abcfold_chai'')] sif_path cmd"
proof -
  let ?dir = "parent (joinpath (module_dir h) ''chai.py'')"
  from assms(1) obtain sp where sp: "sif_path = Some sp" by (cases sif_path) auto
  from assms sp obtain runtime where rt: "resolve_container_runtime h = Inr runtime"
    by (auto simp: generate_chai_test_command_def Let_def split: sum.splits)
  with assms sp have "cmd = [runtime, ''exec'', ''--nv''] @ bind_args [(resolve h ?dir, ''/abcfold_chai'')] @
      path_str (resolve h (Path_of sp)) # [''python'', ''/abcfold_chai/chai.py'', ''fold'', ''--help'']"
    by (auto simp: generate_chai_test_command_def Let_def)
  with rt sp show ?thesis
    unfolding container_argv_def
    by (intro exI [of _ runtime] exI [of _ sp] exI [of _ "[(resolve h ?dir, ''/abcfold_chai'')]"]
          exI [of _ "[''python'', ''/abcfold_chai/chai.py'', ''fold'', ''--help'']"])
       (simp add: alloc_order_def)
qed

lemma chai_bare_both_template_options:
  "\<not> truthy sif_path \<Longrightarrow>
   generate_chai_command h input_fasta msa_dir input_constraints output_dir number_of_models
     num_recycles seed True (Some t) sif_path = Inl AssertionError"
  by (cases sif_path) (simp_all add: generate_chai_command_def chai_bare_command_def Let_def)

section \<open>Properties of the run drivers\<close>



lemma decode_text: "decode b = Inr decoded \<Longrightarrow> decoded = b \<and> utf8_valid b"
  by (auto simp: decode_def split: if_splits)

lemma decode_Inl: "decode b = Inl e \<Longrightarrow> utf8_valid b \<Longrightarrow> False"
  by (simp add: decode_def split: if_splits)


lemma chai_failure_trace:
  assumes "chai_failure env dir p st = (res, st1)"
  shows "\<exists>l. l = (if exists (host_of env (world st)) dir then joinpath dir ''chai_error.log''
                 else joinpath (parent dir) ''chai_error.log'') \<and>
         ((events st1 = events st \<and> (\<exists>e. res = Inl e)) \<or>
          (events st1 = events st @ [OpenW l] \<and> (\<exists>e. res = Inl e)) \<or>
          (events st1 = events st @ [OpenW l, WriteText l (stderr_bytes p)] \<and>
           utf8_valid (stderr_bytes p) \<and> res = Inr (Some False)))"
proof -
  define l where "l = (if exists (host_of env (world st)) dir then joinpath dir ''chai_error.log''
            else joinpath (parent dir) ''chai_error.log'')"
  have run: "(if piped then
        (case open_w env l (world st) of
              Inl e \<Rightarrow> (Inl e, st)
            | Inr w1 \<Rightarrow>
                (let st = log (OpenW l) w1 st in
                 case decode (stderr_bytes p) of
                   Inl e \<Rightarrow> (Inl e, st)
                 | Inr decoded \<Rightarrow>
                     (case write_close env l decoded (world st) of
                        Inl e \<Rightarrow> (Inl e, st)
                      | Inr w2 \<Rightarrow> (Inr (Some False), log (WriteText l decoded) w2 st))))
      else (Inr (Some False), st)) = (res, st1)"
    using assms unfolding chai_failure_def l_def Let_def .
  have "(events st1 = events st \<and> (\<exists>e. res = Inl e)) \<or>
          (events st1 = events st @ [OpenW l] \<and> (\<exists>e. res = Inl e)) \<or>
          (events st1 = events st @ [OpenW l, WriteText l (stderr_bytes p)] \<and>
           utf8_valid (stderr_bytes p) \<and> res = Inr (Some False))"
  proof (cases "open_w env l (world st)")
    case (Inl e)
    with run show ?thesis by (auto simp: piped_def)
  next
    case open_ok: (Inr w1)
    show ?thesis
    proof (cases "decode (stderr_bytes p)")
      case (Inl e)
      with run open_ok show ?thesis by (auto simp: piped_def log_def)
    next
      case (Inr decoded)
      note dec = decode_text [OF Inr]
      show ?thesis
      proof (cases "write_close env l decoded w1")
        case (Inl e)
        with run open_ok Inr show ?thesis by (auto simp: piped_def log_def)
      next
        case write_ok: (Inr w2)
        with run open_ok Inr dec show ?thesis by (auto simp: piped_def log_def)
      qed
    qed
  qed
  with l_def show ?thesis by blast
qed


lemma world_log: "world (log e w st) = w"
  by (simp add: log_def)

lemma events_log: "events (log e w st) = events st @ [e]"
  by (simp add: log_def)


lemma parent_joinpath: "parent (joinpath p s) = p"
  by (simp add: parent_def joinpath_def)








lemma no_spawn_in_log: "log_only evs \<Longrightarrow> Spawn cmd p \<notin> set evs"
  by (auto simp: log_only_def)



lemma split_at_absent:
  assumes "pre @ x # post = a @ b" and "x \<notin> set a"
  shows "\<exists>us. pre = a @ us \<and> b = us @ x # post"
proof -
  from assms(1) obtain us where
    "pre = a @ us \<and> us @ x # post = b \<or> pre @ us = a \<and> x # post = us @ b"
    by (auto simp: append_eq_append_conv2)
  then show ?thesis
  proof
    assume "pre = a @ us \<and> us @ x # post = b"
    then show ?thesis by auto
  next
    assume c: "pre @ us = a \<and> x # post = us @ b"
    show ?thesis
    proof (cases us)
      case Nil
      with c show ?thesis by auto
    next
      case (Cons u us')
      with c have "x \<in> set a" by auto
      with assms(2) show ?thesis by simp
    qed
  qed
qed



lemma nonzero_not_pass: "returncode p \<noteq> 0 \<Longrightarrow> \<not> passes undec soft p"
  by (simp add: passes_def)


lemma mkdir_first_no_spawn:
  assumes "\<forall>cmd p. Spawn cmd p \<notin> set evs"
  shows "mkdir_first od evs"
  unfolding mkdir_first_def
proof (intro allI impI)
  fix pre cmd p post
  assume "evs = pre @ Spawn cmd p # post"
  then have "Spawn cmd p \<in> set evs" by simp
  with assms show "\<exists>pre' seed. pre = pre' @ [Mkdir (joinpath od (''chai_output_seed-'' @ str_int seed))]"
    by blast
qed

lemma mkdir_first_append:
  assumes a: "mkdir_first od a" and b: "mkdir_first od b"
  shows "mkdir_first od (a @ b)"
  unfolding mkdir_first_def
proof (intro allI impI)
  fix pre cmd p post
  assume "a @ b = pre @ Spawn cmd p # post"
  then obtain us where
    "a = pre @ us \<and> us @ b = Spawn cmd p # post \<or> a @ us = pre \<and> b = us @ Spawn cmd p # post"
    by (auto simp: append_eq_append_conv2)
  then show "\<exists>pre' seed. pre = pre' @ [Mkdir (joinpath od (''chai_output_seed-'' @ str_int seed))]"
  proof
    assume c: "a = pre @ us \<and> us @ b = Spawn cmd p # post"
    show ?thesis
    proof (cases us)
      case Nil
      with c have "b = [] @ Spawn cmd p # post" by simp
      with b show ?thesis unfolding mkdir_first_def by blast
    next
      case (Cons u us')
      with c have "a = pre @ Spawn cmd p # us'" by simp
      with a show ?thesis unfolding mkdir_first_def by blast
    qed
  next
    assume c: "a @ us = pre \<and> b = us @ Spawn cmd p # post"
    with b obtain pre' seed where
      "us = pre' @ [Mkdir (joinpath od (''chai_output_seed-'' @ str_int seed))]"
      unfolding mkdir_first_def by blast
    with c have "pre = (a @ pre') @ [Mkdir (joinpath od (''chai_output_seed-'' @ str_int seed))]"
      by simp
    then show ?thesis by blast
  qed
qed

lemma mkdir_first_segment:
  assumes "log_only tail"
  shows "mkdir_first od
           (Mkdir (joinpath od (''chai_output_seed-'' @ str_int seed)) # Spawn cmd p # tail)"
  unfolding mkdir_first_def
proof (intro allI impI)
  let ?m = "Mkdir (joinpath od (''chai_output_seed-'' @ str_int seed))"
  fix pre c q post
  assume "?m # Spawn cmd p # tail = pre @ Spawn c q # post"
  then have "pre @ Spawn c q # post = [?m] @ (Spawn cmd p # tail)" by simp
  moreover have "Spawn c q \<notin> set [?m]" by simp
  ultimately obtain us where us: "pre = [?m] @ us" "Spawn cmd p # tail = us @ Spawn c q # post"
    by (blast dest: split_at_absent)
  have "us = []"
  proof (cases us)
    case Nil
    then show ?thesis .
  next
    case (Cons u us')
    with us(2) have "Spawn c q \<in> set tail" by auto
    with assms show ?thesis by (auto dest: no_spawn_in_log)
  qed
  with us(1) have "pre = [] @ [?m]" by simp
  then show "\<exists>pre' s. pre = pre' @ [Mkdir (joinpath od (''chai_output_seed-'' @ str_int s))]"
    by blast
qed

lemma seed_loop_closed:
  assumes body: "\<And>seed st r st1. body seed st = (r, st1) \<Longrightarrow>
       \<exists>evs. events st1 = events st @ evs \<and> P evs"
    and nil: "P []"
    and app: "\<And>a b. P a \<Longrightarrow> P b \<Longrightarrow> P (a @ b)"
    and run: "seed_loop body seeds st = (res, st')"
  shows "\<exists>evs. events st' = events st @ evs \<and> P evs"
  using run
proof (induction seeds arbitrary: st)
  case Nil
  with nil show ?case by auto
next
  case (Cons seed seeds)
  obtain r st1 where b: "body seed st = (r, st1)" by (cases "body seed st")
  from body [OF b] obtain evs where evs: "events st1 = events st @ evs" "P evs" by blast
  show ?case
  proof (cases "r = Inr None")
    case True
    with Cons.prems b have "seed_loop body seeds st1 = (res, st')" by simp
    from Cons.IH [OF this] obtain evs' where "events st' = events st1 @ evs'" "P evs'" by blast
    with evs app have "events st' = events st @ (evs @ evs')" "P (evs @ evs')" by simp_all
    then show ?thesis by blast
  next
    case False
    with Cons.prems b have "st' = st1" by (cases r; auto split: option.splits)
    with evs show ?thesis by blast
  qed
qed


lemma chai_seed_mkdir:
  assumes cont: "truthy sif"
    and run: "chai_seed env cf od t n r uts thp sif seed st = (res, st1)"
  shows "\<exists>evs. events st1 = events st @ evs \<and> mkdir_first od evs"
proof -
  let ?dir = "joinpath od (''chai_output_seed-'' @ str_int seed)"
  note run' = run [unfolded chai_seed_def Let_def, simplified cont if_True]
  have none: "mkdir_first od []" by (rule mkdir_first_no_spawn) simp
  have one: "mkdir_first od [Mkdir ?dir]" by (rule mkdir_first_no_spawn) simp
  show ?thesis
  proof (cases "mkdir_parents env ?dir (world st)")
    case (Inl e)
    from run' have "events st1 = events st @ []" unfolding Inl sum.case by auto
    with none show ?thesis by blast
  next
    case mk: (Inr wa)
    let ?st2 = "log (Mkdir ?dir) wa st"
    let ?built = "if \<not> t
                 then generate_chai_command (host_of env wa) (cf_fasta cf)
                        (cf_working_dir cf) (cf_constraints cf) (PPath ?dir) n r seed uts thp sif
                 else generate_chai_test_command (host_of env wa) sif"
    note run2 = run' [unfolded mk sum.case world_log]
    show ?thesis
    proof (cases ?built)
      case (Inl e)
      from run2 have "events st1 = events st @ [Mkdir ?dir]"
        unfolding Inl sum.case by (auto simp: events_log)
      with one show ?thesis by blast
    next
      case built_ok: (Inr cmd)
      note run3 = run2 [unfolded built_ok sum.case]
      show ?thesis
      proof (cases "popen env cmd wa")
        case (Inl e)
        from run3 have "events st1 = events st @ [Mkdir ?dir]"
          unfolding Inl sum.case by (auto simp: events_log)
        with one show ?thesis by blast
      next
        case (Inr pw)
        obtain p wb where pw: "pw = (p, wb)" by (cases pw)
        let ?st3 = "log (Spawn cmd p) wb ?st2"
        have ev3: "events ?st3 = events st @ [Mkdir ?dir, Spawn cmd p]"
          by (simp add: events_log)
        note run4 = run3 [unfolded Inr pw sum.case prod.case]
        have "\<exists>tail. events st1 = events ?st3 @ tail \<and> log_only tail"
        proof (cases "returncode p \<noteq> 0")
          case True
          with run4 have f: "chai_failure env ?dir p ?st3 = (res, st1)" by simp
          from chai_failure_trace [OF f] show ?thesis
            by (auto simp: log_only_def)
        next
          case False
          with run4 have "events st1 = events ?st3 @ []" by auto
          then show ?thesis by (auto simp: log_only_def)
        qed
        then obtain tail where tail: "events st1 = events ?st3 @ tail" "log_only tail" by blast
        from tail(1) ev3 have "events st1 = events st @ (Mkdir ?dir # Spawn cmd p # tail)" by simp
        with mkdir_first_segment [OF tail(2)] show ?thesis by blast
      qed
    qed
  qed
qed

lemma run_chai_mkdir:
  assumes cont: "truthy sif"
    and run: "run_chai env ij od si t n r uts thp sif w = (res, st)"
  shows "mkdir_first (Path_of od) (events st)"
proof -
  note run' = run [unfolded run_chai_def Let_def]
  have none: "mkdir_first (Path_of od) []" by (rule mkdir_first_no_spawn) simp
  show ?thesis
  proof (cases "check_chai1 env sif w")
    case (Inl e)
    from run' have "events st = []" unfolding Inl sum.case by auto
    with none show ?thesis by simp
  next
    case check_ok: (Inr wa)
    note run2 = run' [unfolded check_ok sum.case]
    show ?thesis
    proof (cases "mkdtemp env wa")
      case (Inl e)
      from run2 have "events st = []" unfolding Inl sum.case by auto
      with none show ?thesis by simp
    next
      case (Inr tw)
      obtain temp_dir wb where tw: "tw = (temp_dir, wb)" by (cases tw)
      let ?wd = "if si then Path_of od else temp_dir"
      let ?st0 = "\<lparr>world = w, events = []\<rparr>\<lparr>world := wb\<rparr>"
      let ?prep = "if si
                   then (case mkdir_parents env ?wd (world ?st0) of
                           Inl e \<Rightarrow> Inl e
                         | Inr w3 \<Rightarrow> Inr (log (Mkdir ?wd) w3 ?st0))
                   else Inr ?st0"
      note run3 = run2 [unfolded Inr tw sum.case prod.case]
      show ?thesis
      proof (cases ?prep)
        case (Inl e)
        from run3 have "events st = []" unfolding Inl sum.case by auto
        with none show ?thesis by simp
      next
        case prep_ok: (Inr st2)
        have ev2: "mkdir_first (Path_of od) (events st2)"
        proof (cases si)
          case True
          with prep_ok obtain w3 where "st2 = log (Mkdir ?wd) w3 ?st0"
            by (auto split: sum.splits)
          then have "events st2 = [Mkdir ?wd]" by (simp add: events_log)
          then show ?thesis by (simp add: mkdir_first_no_spawn)
        next
          case False
          with prep_ok have "events st2 = []" by auto
          with none show ?thesis by simp
        qed
        note run4 = run3 [unfolded prep_ok sum.case]
        show ?thesis
        proof (cases "json_to_fasta env ?wd (Path_of ij) (world st2)")
          case (Inl e)
          from run4 have "events st = events st2" unfolding Inl sum.case by auto
          with ev2 show ?thesis by simp
        next
          case conv: (Inr cw)
          obtain cf w4 where cw: "cw = (cf, w4)" by (cases cw)
          let ?st5 = "st2\<lparr>world := w4\<rparr>"
          obtain res' st' where loop:
            "seed_loop (chai_seed env cf (Path_of od) t n r uts thp sif) (cf_seeds cf) ?st5 = (res', st')"
            by (cases "seed_loop (chai_seed env cf (Path_of od) t n r uts thp sif) (cf_seeds cf) ?st5")
          from run4 have same: "events st = events st'"
            unfolding conv cw sum.case prod.case loop by auto
          have "\<exists>evs. events st' = events ?st5 @ evs \<and> mkdir_first (Path_of od) evs"
          proof (rule seed_loop_closed [where body = "chai_seed env cf (Path_of od) t n r uts thp sif"])
            show "seed_loop (chai_seed env cf (Path_of od) t n r uts thp sif) (cf_seeds cf) ?st5
                    = (res', st')" by fact
          next
            show "mkdir_first (Path_of od) []" by fact
          next
            fix a b assume "mkdir_first (Path_of od) a" "mkdir_first (Path_of od) b"
            then show "mkdir_first (Path_of od) (a @ b)" by (rule mkdir_first_append)
          next
            fix seed st0 res0 st1
            assume "chai_seed env cf (Path_of od) t n r uts thp sif seed st0 = (res0, st1)"
            with cont show "\<exists>evs. events st1 = events st0 @ evs \<and> mkdir_first (Path_of od) evs"
              by (rule chai_seed_mkdir)
          qed
          then obtain evs where "events st' = events st2 @ evs" "mkdir_first (Path_of od) evs"
            by auto
          with ev2 same show ?thesis by (simp add: mkdir_first_append)
        qed
      qed
    qed
  qed
qed






lemma chai_failure_run:
  "chai_failure env dir p S =
     (case open_w env (if exists (host_of env (world S)) dir then joinpath dir ''chai_error.log''
                       else joinpath (parent dir) ''chai_error.log'') (world S) of
        Inl e \<Rightarrow> (Inl e, S)
      | Inr wc \<Rightarrow>
          (if \<not> utf8_valid (stderr_bytes p)
           then (Inl UnicodeDecodeError,
                 \<lparr>world = wc,
                    events = events S @
                      [OpenW (if exists (host_of env (world S)) dir then joinpath dir ''chai_error.log''
                              else joinpath (parent dir) ''chai_error.log'')]\<rparr>)
           else case write_close env
                       (if exists (host_of env (world S)) dir then joinpath dir ''chai_error.log''
                        else joinpath (parent dir) ''chai_error.log'') (stderr_bytes p) wc of
                  Inl e \<Rightarrow>
                    (Inl e,
                     \<lparr>world = wc,
                        events = events S @
                          [OpenW (if exists (host_of env (world S)) dir
                                  then joinpath dir ''chai_error.log''
                                  else joinpath (parent dir) ''chai_error.log'')]\<rparr>)
                | Inr wd \<Rightarrow>
                    (Inr (Some False),
                     \<lparr>world = wd,
                        events = events S @
                          [OpenW (if exists (host_of env (world S)) dir
                                  then joinpath dir ''chai_error.log''
                                  else joinpath (parent dir) ''chai_error.log''),
                           WriteText (if exists (host_of env (world S)) dir
                                      then joinpath dir ''chai_error.log''
                                      else joinpath (parent dir) ''chai_error.log'')
                             (stderr_bytes p)]\<rparr>)))"
  by (simp add: chai_failure_def piped_def decode_def log_def Let_def split: sum.splits)



lemma chai_seed_child:
  assumes dir: "dir = joinpath od (''chai_output_seed-'' @ str_int seed)"
    and "if truthy sif then mkdir_parents env dir (world st) = Inr wa else wa = world st"
    and "(if \<not> t
          then generate_chai_command (host_of env wa) (cf_fasta cf) (cf_working_dir cf)
                 (cf_constraints cf) (PPath dir) n r seed uts thp sif
          else generate_chai_test_command (host_of env wa) sif) = Inr cmd"
    and "popen env cmd wa = Inr (p, wb)"
  shows "chai_seed env cf od t n r uts thp sif seed st =
     (if returncode p \<noteq> 0
      then chai_failure env dir p
             \<lparr>world = wb,
                events = events st @ (if truthy sif then [Mkdir dir] else []) @ [Spawn cmd p]\<rparr>
      else (Inr None,
            \<lparr>world = wb,
               events = events st @ (if truthy sif then [Mkdir dir] else []) @ [Spawn cmd p]\<rparr>))"
proof -
  let ?st2 = "\<lparr>world = wa, events = events st @ (if truthy sif then [Mkdir dir] else [])\<rparr>"
  have prep: "(if truthy sif
            then (case mkdir_parents env dir (world st) of
                    Inl e \<Rightarrow> Inl e
                  | Inr w1 \<Rightarrow> Inr (log (Mkdir dir) w1 st))
            else Inr st) = Inr ?st2"
    using assms(2) by (cases "truthy sif") (simp_all add: log_def)
  have w2: "world ?st2 = wa" by simp
  have S: "log (Spawn cmd p) wb ?st2
        = \<lparr>world = wb,
             events = events st @ (if truthy sif then [Mkdir dir] else []) @ [Spawn cmd p]\<rparr>"
    by (simp add: log_def)
  show ?thesis
    unfolding chai_seed_def Let_def dir [symmetric] prep sum.case w2 assms(3) assms(4) prod.case S ..
qed










lemma ex_boltz_container:
  "fst (run_boltz (mem_env True (needs_dir (Path ''/'' [''work'', ''out''])) [1])
          (PStr ''x.json'') (PStr ''out'') False False 5 10 (Some (PStr ''img.sif'')) work_only)
     = Inl FileNotFoundError \<and>
   snd (run_boltz (mem_env True (needs_dir (Path ''/'' [''work'', ''out''])) [1])
          (PStr ''x.json'') (PStr ''out'') False False 5 10 (Some (PStr ''img.sif'')) work_only)
     = \<lparr>world = work_only,
         events = [WriteYaml (Path ''/'' [''tmp'', ''run'', ''x_seed-1.yaml'']),
                   Spawn boltz_container_argv (ended 255 [] ''no dir'')]\<rparr>"
  by code_simp

lemma ex_chai_container:
  "fst (run_chai (mem_env True (needs_dir (Path ''/'' [''work'', ''out''])) [1])
          (PStr ''x.json'') (PStr ''out'') False False 5 10 False None (Some (PStr ''img.sif''))
          work_only) = Inr True \<and>
   events (snd (run_chai (mem_env True (needs_dir (Path ''/'' [''work'', ''out''])) [1])
          (PStr ''x.json'') (PStr ''out'') False False 5 10 False None (Some (PStr ''img.sif''))
          work_only))
     = [Mkdir (Path [] [''out'', ''chai_output_seed-1''])] @
       Spawn chai_container_argv (ended 0 [] []) # []"
  by code_simp

lemma ex_chai_child_makes_dir:
  "fst (run_chai (mem_env True
            (makes_dir_then_fails (Path ''/'' [''work'', ''chai_output_seed-1'']) ''boom'') [1])
          (PStr ''x.json'') (PStr ''.'') False False 5 10 False None None work_only) = Inr False \<and>
   snd (run_chai (mem_env True
            (makes_dir_then_fails (Path ''/'' [''work'', ''chai_output_seed-1'']) ''boom'') [1])
          (PStr ''x.json'') (PStr ''.'') False False 5 10 False None None work_only)
     = \<lparr>world = \<lparr>dirs = [Path ''/'' [''work''], Path ''/'' [''work'', ''chai_output_seed-1'']],
                   files = [(Path ''/'' [''work'', ''x.json''], []),
                            (Path ''/'' [''work'', ''chai_output_seed-1'', ''chai_error.log''],
                             ''boom'')]\<rparr>,
         events = [Spawn (chai_argv ''1'') (ended 1 [] ''boom''),
                   OpenW (Path [] [''chai_output_seed-1'', ''chai_error.log'']),
                   WriteText (Path [] [''chai_output_seed-1'', ''chai_error.log'']) ''boom'']\<rparr>"
  by code_simp

section \<open>The claims\<close>

text \<open>
  C1. For every finite sequence of (host path, preferred mount name) requests to one
  allocator, starting from the empty map: two requests get the same mount name exactly when
  their host paths resolve to the same path, so a path requested again gets the name it got
  the first time and different resolved paths get different names. Each name is the
  preferred name of the first request for that path, or that name with a suffix \<open>_k\<close>,
  \<open>k \<ge> 2\<close>. In the resulting map no key and no mount name occurs twice, its keys are
  the resolved host paths requested and its mount names are the names returned.
\<close>

theorem allocator_injective:
  assumes "ensure_binds rslv [] reqs = (dests, bm)"
  shows "length dests = length reqs \<and>
     (\<forall>i<length reqs. \<forall>j<length reqs.
        (dests ! i = dests ! j) = (rslv (fst (reqs ! i)) = rslv (fst (reqs ! j)))) \<and>
     (\<forall>i<length reqs. map_of bm (rslv (fst (reqs ! i))) = Some (dests ! i)) \<and>
     (\<forall>i<length reqs. \<exists>j\<le>i. rslv (fst (reqs ! j)) = rslv (fst (reqs ! i)) \<and>
        named (snd (reqs ! j)) (dests ! i)) \<and>
     distinct (map fst bm) \<and> distinct (map snd bm) \<and>
     set (map fst bm) = rslv ` fst ` set reqs \<and> set (map snd bm) = set dests"
proof -
  from ensure_binds_props [OF assms]
  have p: "distinct (map fst bm)" "distinct (map snd bm)" "length dests = length reqs"
    "\<forall>i<length reqs. map_of bm (rslv (fst (reqs ! i))) = Some (dests ! i)"
    "set (map fst bm) = rslv ` fst ` set reqs" by simp_all
  have inj: "\<forall>i<length reqs. \<forall>j<length reqs.
        (dests ! i = dests ! j) = (rslv (fst (reqs ! i)) = rslv (fst (reqs ! j)))"
  proof (intro allI impI)
    fix i j assume i: "i < length reqs" and j: "j < length reqs"
    from p(4) i j have li: "map_of bm (rslv (fst (reqs ! i))) = Some (dests ! i)"
      and lj: "map_of bm (rslv (fst (reqs ! j))) = Some (dests ! j)" by simp_all
    show "(dests ! i = dests ! j) = (rslv (fst (reqs ! i)) = rslv (fst (reqs ! j)))"
    proof
      assume "dests ! i = dests ! j"
      with li lj map_of_distinct_vals_inj [OF p(2)] show "rslv (fst (reqs ! i)) = rslv (fst (reqs ! j))"
        by metis
    next
      assume "rslv (fst (reqs ! i)) = rslv (fst (reqs ! j))"
      with li lj show "dests ! i = dests ! j" by simp
    qed
  qed
  have names: "\<forall>i<length reqs. \<exists>j\<le>i. rslv (fst (reqs ! j)) = rslv (fst (reqs ! i)) \<and>
        named (snd (reqs ! j)) (dests ! i)"
    using ensure_binds_names [OF assms] by simp
  have vals: "set (map snd bm) = set dests"
  proof
    show "set (map snd bm) \<subseteq> set dests"
    proof
      fix v assume "v \<in> set (map snd bm)"
      then obtain k where kv: "(k, v) \<in> set bm" by auto
      with p(1) have mk: "map_of bm k = Some v" by simp
      from kv have "k \<in> set (map fst bm)" by force
      with p(5) obtain i where i: "i < length reqs" "k = rslv (fst (reqs ! i))"
        by (auto simp: in_set_conv_nth)
      with p(4) mk have "v = dests ! i" by simp
      with i p(3) show "v \<in> set dests" by simp
    qed
  next
    show "set dests \<subseteq> set (map snd bm)"
    proof
      fix v assume "v \<in> set dests"
      then obtain i where i: "i < length dests" "v = dests ! i" by (auto simp: in_set_conv_nth)
      with p(3,4) have "map_of bm (rslv (fst (reqs ! i))) = Some v" by simp
      then have "(rslv (fst (reqs ! i)), v) \<in> set bm" by (rule map_of_SomeD)
      then show "v \<in> set (map snd bm)" by force
    qed
  qed
  from p(1,2,3,4,5) inj names vals show ?thesis by simp
qed

theorem allocator_injective_witness:
  "ensure_binds lexical_resolve []
      [(Path [] [''a''], ''/input''), (Path [] [''b''], ''/input''), (Path [] [''a''], ''/input'')]
     = ([''/input'', ''/input_2'', ''/input''],
        [(Path ''/'' [''work'', ''a''], ''/input''), (Path ''/'' [''work'', ''b''], ''/input_2'')]) \<and>
   distinct (map snd [(Path ''/'' [''work'', ''a''], ''/input''), (Path ''/'' [''work'', ''b''], ''/input_2'')]) \<and>
   set (map snd [(Path ''/'' [''work'', ''a''], ''/input''), (Path ''/'' [''work'', ''b''], ''/input_2'')])
     = set [''/input'', ''/input_2'', ''/input'']"
proof -
  have run: "ensure_binds lexical_resolve []
      [(Path [] [''a''], ''/input''), (Path [] [''b''], ''/input''), (Path [] [''a''], ''/input'')]
     = ([''/input'', ''/input_2'', ''/input''],
        [(Path ''/'' [''work'', ''a''], ''/input''), (Path ''/'' [''work'', ''b''], ''/input_2'')])"
    by (simp add: ensure_bind_def Let_def lexical_resolve_def find_dest.simps suffixed_def str_int_def
        str_nat.simps digit_def)
  from allocator_injective [OF run] show ?thesis using run by blast
qed

text \<open>
  C5. Within one command build (one allocator, starting from the empty map), two requests
  whose paths resolve to the same location, however the two paths are spelled, get the same
  mount name, and the map holds exactly one entry for that location.
\<close>

theorem same_location_one_bind:
  assumes "ensure_binds rslv [] reqs = (dests, bm)"
    and "i < length reqs" and "j < length reqs"
    and "rslv (fst (reqs ! i)) = rslv (fst (reqs ! j))"
  shows "dests ! i = dests ! j \<and>
         filter (\<lambda>e. fst e = rslv (fst (reqs ! i))) bm = [(rslv (fst (reqs ! i)), dests ! i)] \<and>
         filter (\<lambda>e. fst e = rslv (fst (reqs ! j))) bm = [(rslv (fst (reqs ! i)), dests ! i)]"
proof -
  from ensure_binds_props [OF assms(1)]
  have keys: "distinct (map fst bm)"
    and look: "\<forall>i<length reqs. map_of bm (rslv (fst (reqs ! i))) = Some (dests ! i)"
    by simp_all
  from look assms(2) have li: "map_of bm (rslv (fst (reqs ! i))) = Some (dests ! i)" by simp
  from look assms(3) have lj: "map_of bm (rslv (fst (reqs ! j))) = Some (dests ! j)" by simp
  from li lj assms(4) have same: "dests ! i = dests ! j" by simp
  from filter_key_single [OF keys li] same assms(4) show ?thesis by simp
qed

theorem same_location_one_bind_witness:
  "ensure_binds lexical_resolve []
      [(Path_of (PStr ''./out''), ''/output''), (Path_of (PStr ''out/../out''), ''/output'')]
     = ([''/output'', ''/output''], [(Path ''/'' [''work'', ''out''], ''/output'')]) \<and>
   Path_of (PStr ''./out'') \<noteq> Path_of (PStr ''out/../out'') \<and>
   lexical_resolve (Path_of (PStr ''./out'')) = lexical_resolve (Path_of (PStr ''out/../out'')) \<and>
   [''/output'', ''/output''] ! 0 = [''/output'', ''/output''] ! 1 \<and>
   filter (\<lambda>e. fst e = lexical_resolve (Path_of (PStr ''./out'')))
      [(Path ''/'' [''work'', ''out''], ''/output'')]
     = [(lexical_resolve (Path_of (PStr ''./out'')), ''/output'')]"
proof -
  have spell: "parse_path ''./out'' = Path [] [''out'']"
    "parse_path ''out/../out'' = Path [] [''out'', ''..'', ''out'']"
    by (simp_all add: parse_path_def parse_root_def)
  have same: "lexical_resolve (Path_of (PStr ''./out'')) = lexical_resolve (Path_of (PStr ''out/../out''))"
    by (simp add: spell lexical_resolve_def)
  have run: "ensure_binds lexical_resolve []
      [(Path_of (PStr ''./out''), ''/output''), (Path_of (PStr ''out/../out''), ''/output'')]
     = ([''/output'', ''/output''], [(Path ''/'' [''work'', ''out''], ''/output'')])"
    by (simp add: spell ensure_bind_def Let_def lexical_resolve_def find_dest.simps)
  from same_location_one_bind [OF run, of 0 1] same
  have "[''/output'', ''/output''] ! 0 = [''/output'', ''/output''] ! 1 \<and>
    filter (\<lambda>e. fst e = lexical_resolve (Path_of (PStr ''./out'')))
      [(Path ''/'' [''work'', ''out''], ''/output'')]
     = [(lexical_resolve (Path_of (PStr ''./out'')), ''/output'')]"
    by simp
  with run same spell show ?thesis by simp
qed

text \<open>
  C4. Every command a builder produces in containerized mode (a true \<open>sif_path\<close>) is
  the runtime, \<open>exec\<close>, \<open>--nv\<close>, then one \<open>--bind host:mount\<close> pair for each
  distinct resolved host directory the command refers to, in allocation order, then the
  image path, then the invocation of the tool, with no \<open>--bind\<close> after the image. This
  holds for the Boltz and Chai-1 builders and for their test commands.
\<close>

theorem container_commands_bind_once:
  assumes "truthy sif_path"
  shows "(generate_boltz_command h input_yaml output_dir number_of_models num_recycles seed sif_path
            = Inr cmd1 \<longrightarrow>
          container_argv h (boltz_binds h input_yaml output_dir) sif_path cmd1) \<and>
         (generate_chai_command h input_fasta msa_dir input_constraints output_dir number_of_models
            num_recycles seed use_templates_server template_hits_path sif_path = Inr cmd2 \<longrightarrow>
          container_argv h
            (chai_binds h (Path_of input_fasta) (Path_of msa_dir) (optional_path input_constraints)
               (Path_of output_dir) template_hits_path) sif_path cmd2) \<and>
         (generate_boltz_test_command h sif_path = Inr cmd3 \<longrightarrow> container_argv h [] sif_path cmd3) \<and>
         (generate_chai_test_command h sif_path = Inr cmd4 \<longrightarrow>
          container_argv h [(parent (joinpath (module_dir h) ''chai.py''), ''/abcfold_chai'')]
            sif_path cmd4)"
proof -
  from assms obtain sp where sp: "sif_path = Some sp" by (cases sif_path) auto
  have boltz: "container_argv h (boltz_binds h input_yaml output_dir) sif_path cmd1"
    if "generate_boltz_command h input_yaml output_dir number_of_models num_recycles seed sif_path = Inr cmd1"
  proof -
    from that assms sp have "boltz_container_command h (resolve h (Path_of input_yaml))
        (resolve h (Path_of output_dir)) number_of_models num_recycles seed sp = Inr cmd1"
      by (simp add: generate_boltz_command_def)
    from boltz_container_shape [OF this] sp show ?thesis by (simp add: boltz_binds_def)
  qed
  have chai: "container_argv h
            (chai_binds h (Path_of input_fasta) (Path_of msa_dir) (optional_path input_constraints)
               (Path_of output_dir) template_hits_path) sif_path cmd2"
    if "generate_chai_command h input_fasta msa_dir input_constraints output_dir number_of_models
            num_recycles seed use_templates_server template_hits_path sif_path = Inr cmd2"
  proof -
    from that assms sp have "chai_container_command h (Path_of input_fasta) (Path_of msa_dir)
        (optional_path input_constraints) (Path_of output_dir) number_of_models num_recycles seed
        use_templates_server template_hits_path sp = Inr cmd2"
      by (simp add: generate_chai_command_def)
    from chai_container_shape [OF this] sp show ?thesis by simp
  qed
  from boltz chai boltz_test_shape [OF assms] chai_test_shape [OF assms] show ?thesis by blast
qed

theorem container_commands_bind_once_witness:
  "truthy (Some (PStr ''img.sif'')) \<and>
   generate_boltz_command (mem_host w0) (PStr ''x_seed-1.yaml'') (PStr ''.'') 5 10 1
       (Some (PStr ''img.sif''))
     = Inr [''/usr/bin/apptainer'', ''exec'', ''--nv'', ''--bind'', ''/work:/input'',
            ''/work/img.sif'', ''boltz'', ''predict'', ''/input/x_seed-1.yaml'', ''--out_dir'',
            ''/input'', ''--override'', ''--write_full_pae'', ''--write_full_pde'',
            ''--diffusion_samples'', ''5'', ''--recycling_steps'', ''10'', ''--seed'', ''1''] \<and>
   container_argv (mem_host w0) (boltz_binds (mem_host w0) (PStr ''x_seed-1.yaml'') (PStr ''.''))
       (Some (PStr ''img.sif''))
       [''/usr/bin/apptainer'', ''exec'', ''--nv'', ''--bind'', ''/work:/input'',
        ''/work/img.sif'', ''boltz'', ''predict'', ''/input/x_seed-1.yaml'', ''--out_dir'',
        ''/input'', ''--override'', ''--write_full_pae'', ''--write_full_pde'',
        ''--diffusion_samples'', ''5'', ''--recycling_steps'', ''10'', ''--seed'', ''1''] \<and>
   generate_chai_command (mem_host w0) (PStr ''in/x.fasta'') (PStr ''in'') None
       (PStr ''out/chai_output_seed-1'') 5 10 1 False None (Some (PStr ''img.sif''))
     = Inr [''/usr/bin/apptainer'', ''exec'', ''--nv'', ''--bind'',
            ''/opt/abcfold/chai1:/abcfold_chai'', ''--bind'', ''/work/in:/input'', ''--bind'',
            ''/work/out/chai_output_seed-1:/output'', ''/work/img.sif'', ''python'',
            ''/abcfold_chai/chai.py'', ''fold'', ''/input/x.fasta'', ''--msa-directory'',
            ''/input'', ''--num-diffn-samples'', ''5'', ''--num-trunk-recycles'', ''10'',
            ''--seed'', ''1'', ''/output''] \<and>
   container_argv (mem_host w0)
       (chai_binds (mem_host w0) (Path_of (PStr ''in/x.fasta'')) (Path_of (PStr ''in''))
          (optional_path None) (Path_of (PStr ''out/chai_output_seed-1'')) None)
       (Some (PStr ''img.sif''))
       [''/usr/bin/apptainer'', ''exec'', ''--nv'', ''--bind'',
        ''/opt/abcfold/chai1:/abcfold_chai'', ''--bind'', ''/work/in:/input'', ''--bind'',
        ''/work/out/chai_output_seed-1:/output'', ''/work/img.sif'', ''python'',
        ''/abcfold_chai/chai.py'', ''fold'', ''/input/x.fasta'', ''--msa-directory'',
        ''/input'', ''--num-diffn-samples'', ''5'', ''--num-trunk-recycles'', ''10'',
        ''--seed'', ''1'', ''/output''] \<and>
   generate_boltz_test_command (mem_host w0) (Some (PStr ''img.sif''))
     = Inr [''/usr/bin/apptainer'', ''exec'', ''--nv'', ''/work/img.sif'', ''boltz'', ''predict'',
            ''--help''] \<and>
   container_argv (mem_host w0) [] (Some (PStr ''img.sif''))
       [''/usr/bin/apptainer'', ''exec'', ''--nv'', ''/work/img.sif'', ''boltz'', ''predict'',
        ''--help''] \<and>
   generate_chai_test_command (mem_host w0) (Some (PStr ''img.sif''))
     = Inr [''/usr/bin/apptainer'', ''exec'', ''--nv'', ''--bind'',
            ''/opt/abcfold/chai1:/abcfold_chai'', ''/work/img.sif'', ''python'',
            ''/abcfold_chai/chai.py'', ''fold'', ''--help''] \<and>
   container_argv (mem_host w0)
       [(parent (joinpath (module_dir (mem_host w0)) ''chai.py''), ''/abcfold_chai'')]
       (Some (PStr ''img.sif''))
       [''/usr/bin/apptainer'', ''exec'', ''--nv'', ''--bind'',
        ''/opt/abcfold/chai1:/abcfold_chai'', ''/work/img.sif'', ''python'',
        ''/abcfold_chai/chai.py'', ''fold'', ''--help'']"
proof -
  have t: "truthy (Some (PStr ''img.sif''))" by simp
  have e1: "generate_boltz_command (mem_host w0) (PStr ''x_seed-1.yaml'') (PStr ''.'') 5 10 1
       (Some (PStr ''img.sif''))
     = Inr [''/usr/bin/apptainer'', ''exec'', ''--nv'', ''--bind'', ''/work:/input'',
            ''/work/img.sif'', ''boltz'', ''predict'', ''/input/x_seed-1.yaml'', ''--out_dir'',
            ''/input'', ''--override'', ''--write_full_pae'', ''--write_full_pde'',
            ''--diffusion_samples'', ''5'', ''--recycling_steps'', ''10'', ''--seed'', ''1'']"
    by (simp add: generate_boltz_command_def boltz_container_command_def path_eval int_eval
        bind_eval host_eval)
  have e2: "generate_chai_command (mem_host w0) (PStr ''in/x.fasta'') (PStr ''in'') None
       (PStr ''out/chai_output_seed-1'') 5 10 1 False None (Some (PStr ''img.sif''))
     = Inr [''/usr/bin/apptainer'', ''exec'', ''--nv'', ''--bind'',
            ''/opt/abcfold/chai1:/abcfold_chai'', ''--bind'', ''/work/in:/input'', ''--bind'',
            ''/work/out/chai_output_seed-1:/output'', ''/work/img.sif'', ''python'',
            ''/abcfold_chai/chai.py'', ''fold'', ''/input/x.fasta'', ''--msa-directory'',
            ''/input'', ''--num-diffn-samples'', ''5'', ''--num-trunk-recycles'', ''10'',
            ''--seed'', ''1'', ''/output'']"
    by (simp add: generate_chai_command_def chai_container_command_def optional_path_def
        bind_if_exists_def bind_file_arg_def path_eval int_eval bind_eval host_eval)
  have e3: "generate_boltz_test_command (mem_host w0) (Some (PStr ''img.sif''))
     = Inr [''/usr/bin/apptainer'', ''exec'', ''--nv'', ''/work/img.sif'', ''boltz'', ''predict'',
            ''--help'']"
    by (simp add: generate_boltz_test_command_def path_eval host_eval)
  have e4: "generate_chai_test_command (mem_host w0) (Some (PStr ''img.sif''))
     = Inr [''/usr/bin/apptainer'', ''exec'', ''--nv'', ''--bind'',
            ''/opt/abcfold/chai1:/abcfold_chai'', ''/work/img.sif'', ''python'',
            ''/abcfold_chai/chai.py'', ''fold'', ''--help'']"
    by (simp add: generate_chai_test_command_def path_eval host_eval)
  note boltz = container_commands_bind_once [OF t, where h = "mem_host w0"
      and input_yaml = "PStr ''x_seed-1.yaml''" and output_dir = "PStr ''.''"
      and number_of_models = 5 and num_recycles = 10 and seed = 1]
  note chai = container_commands_bind_once [OF t, where h = "mem_host w0"
      and input_fasta = "PStr ''in/x.fasta''" and msa_dir = "PStr ''in''"
      and input_constraints = None and output_dir = "PStr ''out/chai_output_seed-1''"
      and number_of_models = 5 and num_recycles = 10 and seed = 1
      and use_templates_server = False and template_hits_path = None]
  from boltz chai t e1 e2 e3 e4 show ?thesis by blast
qed

text \<open>
  C2. A call of the Chai-1 command builder with both \<open>use_templates_server\<close> and a
  \<open>template_hits_path\<close> fails before a command is returned. The bare branch raises the
  assertion error. The containerized branch returns before the assertion is reached: on the
  reference host, with the hits file present, it returns a command that carries both
  \<open>--use-templates-server\<close> and \<open>--template-hits-path\<close>.
\<close>

theorem chai_both_template_options:
  "generate_chai_command (mem_host w0) (PStr ''in/x.fasta'') (PStr ''in'') None
       (PStr ''out/chai_output_seed-1'') 5 10 1 True (Some (Path [] [''in'', ''hits.m8'']))
       (Some (PStr ''img.sif''))
     = Inr [''/usr/bin/apptainer'', ''exec'', ''--nv'', ''--bind'',
            ''/opt/abcfold/chai1:/abcfold_chai'', ''--bind'', ''/work/in:/input'', ''--bind'',
            ''/work/out/chai_output_seed-1:/output'', ''/work/img.sif'', ''python'',
            ''/abcfold_chai/chai.py'', ''fold'', ''/input/x.fasta'', ''--msa-directory'',
            ''/input'', ''--num-diffn-samples'', ''5'', ''--num-trunk-recycles'', ''10'',
            ''--seed'', ''1'', ''--use-templates-server'', ''--template-hits-path'',
            ''/input/hits.m8'', ''/output''] \<and>
   generate_chai_command (mem_host w0) (PStr ''in/x.fasta'') (PStr ''in'') None
       (PStr ''out/chai_output_seed-1'') 5 10 1 True (Some (Path [] [''in'', ''hits.m8'']))
       None
     = Inl AssertionError"
proof -
  have container: "generate_chai_command (mem_host w0) (PStr ''in/x.fasta'') (PStr ''in'') None
       (PStr ''out/chai_output_seed-1'') 5 10 1 True (Some (Path [] [''in'', ''hits.m8'']))
       (Some (PStr ''img.sif''))
     = Inr [''/usr/bin/apptainer'', ''exec'', ''--nv'', ''--bind'',
            ''/opt/abcfold/chai1:/abcfold_chai'', ''--bind'', ''/work/in:/input'', ''--bind'',
            ''/work/out/chai_output_seed-1:/output'', ''/work/img.sif'', ''python'',
            ''/abcfold_chai/chai.py'', ''fold'', ''/input/x.fasta'', ''--msa-directory'',
            ''/input'', ''--num-diffn-samples'', ''5'', ''--num-trunk-recycles'', ''10'',
            ''--seed'', ''1'', ''--use-templates-server'', ''--template-hits-path'',
            ''/input/hits.m8'', ''/output'']"
    by (simp add: generate_chai_command_def chai_container_command_def optional_path_def
        bind_if_exists_def bind_file_arg_def path_eval int_eval bind_eval host_eval)
  have bare: "generate_chai_command (mem_host w0) (PStr ''in/x.fasta'') (PStr ''in'') None
       (PStr ''out/chai_output_seed-1'') 5 10 1 True (Some (Path [] [''in'', ''hits.m8'']))
       None
     = Inl AssertionError"
    by (simp add: generate_chai_command_def chai_bare_command_def Let_def)
  from container bare show ?thesis by (rule conjI)
qed









text \<open>
  C8. In containerized mode the output directory is created on disk, if absent, before the
  child is launched, in both integrations. The Chai-1 driver does so (below); \<open>run_boltz\<close>
  makes no directory. With the output directory \<open>out\<close> missing, it starts the runtime
  with \<open>--bind /work/out:/output\<close>; the child, which needs \<open>/work/out\<close>, fails, and at
  the end \<open>/work/out\<close> still does not exist.
\<close>

theorem boltz_container_no_mkdir:
  "fst (run_boltz (mem_env True (needs_dir (Path ''/'' [''work'', ''out''])) [1])
          (PStr ''x.json'') (PStr ''out'') False False 5 10 (Some (PStr ''img.sif'')) work_only) = Inl FileNotFoundError \<and>
   snd (run_boltz (mem_env True (needs_dir (Path ''/'' [''work'', ''out''])) [1])
          (PStr ''x.json'') (PStr ''out'') False False 5 10 (Some (PStr ''img.sif'')) work_only)
     = \<lparr>world = work_only,
         events = [WriteYaml (Path ''/'' [''tmp'', ''run'', ''x_seed-1.yaml'']),
                   Spawn boltz_container_argv (ended 255 [] ''no dir'')]\<rparr> \<and>
   Path ''/'' [''work'', ''out''] \<notin> set (dirs work_only) \<and>
   truthy (Some (PStr ''img.sif''))"
proof -
  have "Path ''/'' [''work'', ''out''] \<notin> set (dirs work_only)" by (simp add: work_only_def)
  moreover have "truthy (Some (PStr ''img.sif''))" by simp
  ultimately show ?thesis using ex_boltz_container by (intro conjI) simp_all
qed

text \<open>
  The Chai-1 driver in containerized mode: every launch of a child follows directly on a
  \<open>mkdir(parents=True, exist_ok=True)\<close> of that seed's directory \<open>chai_output_seed-N\<close>
  under the output directory, which creates the output directory with it.
\<close>

theorem chai_container_creates_output_dir:
  assumes "truthy sif_path"
    and "run_chai env input_json output_dir save_input test number_of_models num_recycles
           use_templates_server template_hits_path sif_path w = (res, st)"
    and "events st = pre @ Spawn cmd p # post"
  shows "\<exists>pre' seed.
           pre = pre' @ [Mkdir (joinpath (Path_of output_dir) (''chai_output_seed-'' @ str_int seed))]"
  using run_chai_mkdir [OF assms(1,2)] assms(3) unfolding mkdir_first_def by blast

theorem chai_container_creates_output_dir_witness:
  "truthy (Some (PStr ''img.sif'')) \<and>
   events (snd (run_chai (mem_env True (needs_dir (Path ''/'' [''work'', ''out''])) [1])
          (PStr ''x.json'') (PStr ''out'') False False 5 10 False None (Some (PStr ''img.sif''))
          work_only))
     = [Mkdir (Path [] [''out'', ''chai_output_seed-1''])] @
       Spawn chai_container_argv (ended 0 [] []) # [] \<and>
   (\<exists>pre' seed. [Mkdir (Path [] [''out'', ''chai_output_seed-1''])]
      = pre' @ [Mkdir (joinpath (Path_of (PStr ''out'')) (''chai_output_seed-'' @ str_int seed))])"
proof -
  let ?C = "run_chai (mem_env True (needs_dir (Path ''/'' [''work'', ''out''])) [1])
          (PStr ''x.json'') (PStr ''out'') False False 5 10 False None (Some (PStr ''img.sif''))
          work_only"
  have t: "truthy (Some (PStr ''img.sif''))" by simp
  have run: "?C = (fst ?C, snd ?C)" by simp
  note ev = ex_chai_container [THEN conjunct2]
  from chai_container_creates_output_dir [OF t run ev] t ev show ?thesis by (intro conjI)
qed

text \<open>
  C9. When the installation check has passed and the conversion yields no seed, the run
  returns \<open>True\<close> and has started no child and opened or written no log: a Boltz run has
  no event at all, and a Chai-1 run has none but the creation of the working directory when
  the input is to be saved.
\<close>

theorem no_seeds_vacuous_success:
  "(check_boltz env sif_path w = Inr wa \<and> mkdtemp env wa = Inr (temp_dir, wb) \<and>
    json_to_yaml env (if save_input then Path_of output_dir else temp_dir) (Path_of input_json) wb
      = Inr ([], wc) \<longrightarrow>
    run_boltz env input_json output_dir save_input test number_of_models num_recycles sif_path w
      = (Inr True, \<lparr>world = rmtree env temp_dir wc, events = []\<rparr>)) \<and>
   (check_chai1 env sif_path w = Inr wa \<and> mkdtemp env wa = Inr (temp_dir, wb) \<and>
    (if save_input then mkdir_parents env (Path_of output_dir) wb = Inr wc else wc = wb) \<and>
    json_to_fasta env (if save_input then Path_of output_dir else temp_dir) (Path_of input_json) wc
      = Inr (cf, wd) \<and>
    cf_seeds cf = [] \<longrightarrow>
    run_chai env input_json output_dir save_input test number_of_models num_recycles
      use_templates_server template_hits_path sif_path w
      = (Inr True,
         \<lparr>world = rmtree env temp_dir wd,
            events = (if save_input then [Mkdir (Path_of output_dir)] else [])\<rparr>))"
proof (intro conjI impI)
  assume "check_boltz env sif_path w = Inr wa \<and> mkdtemp env wa = Inr (temp_dir, wb) \<and>
    json_to_yaml env (if save_input then Path_of output_dir else temp_dir) (Path_of input_json) wb
      = Inr ([], wc)"
  then show "run_boltz env input_json output_dir save_input test number_of_models num_recycles
      sif_path w = (Inr True, \<lparr>world = rmtree env temp_dir wc, events = []\<rparr>)"
    by (simp add: run_boltz_def)
next
  assume a: "check_chai1 env sif_path w = Inr wa \<and> mkdtemp env wa = Inr (temp_dir, wb) \<and>
    (if save_input then mkdir_parents env (Path_of output_dir) wb = Inr wc else wc = wb) \<and>
    json_to_fasta env (if save_input then Path_of output_dir else temp_dir) (Path_of input_json) wc
      = Inr (cf, wd) \<and>
    cf_seeds cf = []"
  show "run_chai env input_json output_dir save_input test number_of_models num_recycles
      use_templates_server template_hits_path sif_path w
      = (Inr True,
         \<lparr>world = rmtree env temp_dir wd,
            events = (if save_input then [Mkdir (Path_of output_dir)] else [])\<rparr>)"
  proof (cases save_input)
    case True
    with a show ?thesis by (auto simp: run_chai_def log_def)
  next
    case False
    with a show ?thesis by (auto simp: run_chai_def)
  qed
qed

theorem no_seeds_vacuous_success_witness:
  "check_boltz (mem_env True (exits 0 [] []) []) None work_only = Inr work_only \<and>
   mkdtemp (mem_env True (exits 0 [] []) []) work_only = Inr (tmp_run, with_tmp work_only) \<and>
   json_to_yaml (mem_env True (exits 0 [] []) [])
       (if False then Path_of (PStr ''out'') else tmp_run) (Path_of (PStr ''x.json''))
       (with_tmp work_only) = Inr ([], with_tmp work_only) \<and>
   run_boltz (mem_env True (exits 0 [] []) []) (PStr ''x.json'') (PStr ''out'') False False 5 10
       None work_only
     = (Inr True,
        \<lparr>world = rmtree (mem_env True (exits 0 [] []) []) tmp_run (with_tmp work_only),
           events = []\<rparr>) \<and>
   json_to_fasta (mem_env True (exits 0 [] []) [])
       (if False then Path_of (PStr ''out'') else tmp_run) (Path_of (PStr ''x.json''))
       (with_tmp work_only)
     = Inr (demo_fasta [],
            put_file (Path ''/'' [''tmp'', ''run'', ''x.fasta'']) ''fasta'' (with_tmp work_only)) \<and>
   cf_seeds (demo_fasta []) = [] \<and>
   run_chai (mem_env True (exits 0 [] []) []) (PStr ''x.json'') (PStr ''out'') False False 5 10
       False None None work_only
     = (Inr True,
        \<lparr>world = rmtree (mem_env True (exits 0 [] []) []) tmp_run
                   (put_file (Path ''/'' [''tmp'', ''run'', ''x.fasta'']) ''fasta''
                      (with_tmp work_only)),
           events = (if False then [Mkdir (Path_of (PStr ''out''))] else [])\<rparr>)"
proof -
  let ?E = "mem_env True (exits 0 [] []) []"
  have c1: "check_boltz ?E None work_only = Inr work_only" by (simp add: mem_env_def)
  have c2: "check_chai1 ?E None work_only = Inr work_only" by (simp add: mem_env_def)
  have t: "mkdtemp ?E work_only = Inr (tmp_run, with_tmp work_only)" by (simp add: mem_env_def)
  have y: "json_to_yaml ?E (if False then Path_of (PStr ''out'') else tmp_run)
       (Path_of (PStr ''x.json'')) (with_tmp work_only) = Inr ([], with_tmp work_only)"
    by (simp add: mem_env_def)
  have f: "json_to_fasta ?E (if False then Path_of (PStr ''out'') else tmp_run)
       (Path_of (PStr ''x.json'')) (with_tmp work_only)
     = Inr (demo_fasta [],
            put_file (Path ''/'' [''tmp'', ''run'', ''x.fasta'']) ''fasta'' (with_tmp work_only))"
    by (simp add: mem_env_def demo_fasta_def tmp_run_def joinpath_def lexical_resolve_def)
  have s: "cf_seeds (demo_fasta []) = []" by (simp add: demo_fasta_def)
  have m: "if False then mkdir_parents ?E (Path_of (PStr ''out'')) (with_tmp work_only)
                   = Inr (with_tmp work_only)
           else with_tmp work_only = with_tmp work_only" by simp
  have hB: "check_boltz ?E None work_only = Inr work_only \<and>
     mkdtemp ?E work_only = Inr (tmp_run, with_tmp work_only) \<and>
     json_to_yaml ?E (if False then Path_of (PStr ''out'') else tmp_run)
       (Path_of (PStr ''x.json'')) (with_tmp work_only) = Inr ([], with_tmp work_only)"
    by (intro conjI) (rule c1, rule t, rule y)
  have hC: "check_chai1 ?E None work_only = Inr work_only \<and>
     mkdtemp ?E work_only = Inr (tmp_run, with_tmp work_only) \<and>
     (if False then mkdir_parents ?E (Path_of (PStr ''out'')) (with_tmp work_only)
                   = Inr (with_tmp work_only)
      else with_tmp work_only = with_tmp work_only) \<and>
     json_to_fasta ?E (if False then Path_of (PStr ''out'') else tmp_run)
       (Path_of (PStr ''x.json'')) (with_tmp work_only)
     = Inr (demo_fasta [],
            put_file (Path ''/'' [''tmp'', ''run'', ''x.fasta'']) ''fasta'' (with_tmp work_only)) \<and>
     cf_seeds (demo_fasta []) = []"
    by (intro conjI) (rule c2, rule t, rule m, rule f, rule s)
  note rB = no_seeds_vacuous_success [THEN conjunct1, rule_format, OF hB,
      where test = False and number_of_models = 5 and num_recycles = 10]
  note rC = no_seeds_vacuous_success [THEN conjunct2, rule_format, OF hC,
      where test = False and number_of_models = 5 and num_recycles = 10
        and use_templates_server = False and template_hits_path = None]
  from c1 t y rB f s rC show ?thesis by (intro conjI)
qed

text \<open>
  C10, as the code has it. A Chai-1 child, started in the world \<open>wa\<close>, has ended with a
  nonzero exit code and left the world \<open>wb\<close>. The driver then opens \<open>chai_error.log\<close> for
  writing inside that seed's output directory if this path exists in \<open>wb\<close>, and inside the
  output directory, its parent, otherwise. What follows depends on that file \<open>l\<close>:

  \<^item> if opening \<open>l\<close> succeeds, the captured standard error is well-formed UTF-8 and writing
    it succeeds, the log \<open>l\<close> holds exactly that text and the iteration returns \<open>False\<close>;
  \<^item> if opening \<open>l\<close> raises (the directory chosen does not exist, or the path of the
    seed's directory is a file), the iteration raises that error and no log is written;
  \<^item> if the captured standard error is not well-formed UTF-8, the iteration raises
    \<open>UnicodeDecodeError\<close> and leaves the opened log empty;
  \<^item> if writing raises, the iteration raises that error after the log has been opened.

  Without an image the driver makes no directory itself, so there the parent is chosen
  unless the seed's directory exists already or the child has made it.
\<close>

theorem chai_error_log_location:
  "dir = joinpath output_dir (''chai_output_seed-'' @ str_int seed) \<and>
   (if truthy sif_path then mkdir_parents env dir (world st) = Inr wa else wa = world st) \<and>
   (if \<not> test
     then generate_chai_command (host_of env wa) (cf_fasta cf) (cf_working_dir cf)
            (cf_constraints cf) (PPath dir) number_of_models num_recycles seed
            use_templates_server template_hits_path sif_path
     else generate_chai_test_command (host_of env wa) sif_path) = Inr cmd \<and>
   popen env cmd wa = Inr (p, wb) \<and>
   returncode p \<noteq> 0 \<and>
   l = (if exists (host_of env wb) dir then joinpath dir ''chai_error.log''
          else joinpath output_dir ''chai_error.log'') \<and>
   ev = events st @ (if truthy sif_path then [Mkdir dir] else []) @ [Spawn cmd p] \<and>
   R = chai_seed env cf output_dir test number_of_models num_recycles use_templates_server
          template_hits_path sif_path seed st \<longrightarrow>
   (open_w env l wb = Inr wc \<and> utf8_valid (stderr_bytes p) \<and>
    write_close env l (stderr_bytes p) wc = Inr wd \<longrightarrow>
    R = (Inr (Some False), \<lparr>world = wd, events = ev @ [OpenW l, WriteText l (stderr_bytes p)]\<rparr>)) \<and>
   (open_w env l wb = Inl e \<longrightarrow> R = (Inl e, \<lparr>world = wb, events = ev\<rparr>)) \<and>
   (open_w env l wb = Inr wc \<and> \<not> utf8_valid (stderr_bytes p) \<longrightarrow>
    R = (Inl UnicodeDecodeError, \<lparr>world = wc, events = ev @ [OpenW l]\<rparr>)) \<and>
   (open_w env l wb = Inr wc \<and> utf8_valid (stderr_bytes p) \<and>
    write_close env l (stderr_bytes p) wc = Inl e \<longrightarrow>
    R = (Inl e, \<lparr>world = wc, events = ev @ [OpenW l]\<rparr>))"
  apply (rule impI; elim conjE)
  subgoal premises h
  proof -
    note seed = chai_seed_child [OF h(1-4)]
    have l': "(if exists (host_of env wb) dir then joinpath dir ''chai_error.log''
               else joinpath (parent dir) ''chai_error.log'') = l"
      unfolding h(6) h(1) parent_joinpath ..
    from h(5) show ?thesis
      unfolding h(8) seed chai_failure_run run_state.simps l' h(7) [symmetric]
      by (auto split: sum.splits)
  qed
  done

theorem chai_error_log_location_witness:
  "\<not> exists (host_of fails_once (with_tmp work_only)) (Path [] [''chai_output_seed-1'']) \<and>
   Path [] [''chai_output_seed-1''] = joinpath (Path [] []) (''chai_output_seed-'' @ str_int 1) \<and>
   (if truthy None then mkdir_parents fails_once (Path [] [''chai_output_seed-1'']) (world
        \<lparr>world = with_tmp work_only, events = []\<rparr>) = Inr (with_tmp work_only) else
        (with_tmp work_only) = world \<lparr>world = with_tmp work_only, events = []\<rparr>) \<and>
   (if \<not> False then generate_chai_command (host_of fails_once (with_tmp work_only)) (cf_fasta
        (demo_fasta [1])) (cf_working_dir (demo_fasta [1])) (cf_constraints (demo_fasta [1])) (PPath
        (Path [] [''chai_output_seed-1''])) 5 10 1 False None None else generate_chai_test_command
        (host_of fails_once (with_tmp work_only)) None) = Inr (chai_argv ''1'') \<and>
   popen fails_once (chai_argv ''1'') (with_tmp work_only) = Inr (ended 1 [] ''boom'', with_tmp
        work_only) \<and>
   returncode (ended 1 [] ''boom'') \<noteq> 0 \<and>
   Path [] [''chai_error.log''] = (if exists (host_of fails_once (with_tmp work_only)) (Path []
        [''chai_output_seed-1'']) then joinpath (Path [] [''chai_output_seed-1'']) ''chai_error.log''
        else joinpath (Path [] []) ''chai_error.log'') \<and>
   [Spawn (chai_argv ''1'') (ended 1 [] ''boom'')] = events \<lparr>world = with_tmp work_only,
        events = []\<rparr> @ (if truthy None then [Mkdir (Path [] [''chai_output_seed-1''])] else
        []) @ [Spawn (chai_argv ''1'') (ended 1 [] ''boom'')] \<and>
   open_w fails_once (Path [] [''chai_error.log'']) (with_tmp work_only) = Inr (put_file (in_work
        ''chai_error.log'') [] (with_tmp work_only)) \<and>
   utf8_valid (stderr_bytes (ended 1 [] ''boom'')) \<and>
   write_close fails_once (Path [] [''chai_error.log'']) (stderr_bytes (ended 1 [] ''boom''))
        (put_file (in_work ''chai_error.log'') [] (with_tmp work_only)) = Inr (put_file (in_work
        ''chai_error.log'') ''boom'' (put_file (in_work ''chai_error.log'') [] (with_tmp work_only))) \<and>
   chai_seed fails_once (demo_fasta [1]) (Path [] []) False 5 10 False None None 1 \<lparr>world =
        with_tmp work_only, events = []\<rparr> = (Inr (Some False), \<lparr>world = (put_file
        (in_work ''chai_error.log'') ''boom'' (put_file (in_work ''chai_error.log'') [] (with_tmp
        work_only))), events = [Spawn (chai_argv ''1'') (ended 1 [] ''boom'')] @ [OpenW (Path []
        [''chai_error.log'']), WriteText (Path [] [''chai_error.log'']) ''boom'']\<rparr>) \<and>
   exists (host_of fails_once (with_seed_dir (with_tmp work_only))) (Path []
        [''chai_output_seed-1'']) \<and>
   Path [] [''chai_output_seed-1''] = joinpath (Path [] []) (''chai_output_seed-'' @ str_int 1) \<and>
   (if truthy None then mkdir_parents fails_once (Path [] [''chai_output_seed-1'']) (world
        \<lparr>world = (with_seed_dir (with_tmp work_only)), events = []\<rparr>) = Inr
        (with_seed_dir (with_tmp work_only)) else (with_seed_dir (with_tmp work_only)) = world
        \<lparr>world = (with_seed_dir (with_tmp work_only)), events = []\<rparr>) \<and>
   (if \<not> False then generate_chai_command (host_of fails_once (with_seed_dir (with_tmp
        work_only))) (cf_fasta (demo_fasta [1])) (cf_working_dir (demo_fasta [1])) (cf_constraints
        (demo_fasta [1])) (PPath (Path [] [''chai_output_seed-1''])) 5 10 1 False None None else
        generate_chai_test_command (host_of fails_once (with_seed_dir (with_tmp work_only))) None) =
        Inr (chai_argv ''1'') \<and>
   popen fails_once (chai_argv ''1'') (with_seed_dir (with_tmp work_only)) = Inr (ended 1 []
        ''boom'', (with_seed_dir (with_tmp work_only))) \<and>
   returncode (ended 1 [] ''boom'') \<noteq> 0 \<and>
   Path [] [''chai_output_seed-1'', ''chai_error.log''] = (if exists (host_of fails_once
        (with_seed_dir (with_tmp work_only))) (Path [] [''chai_output_seed-1'']) then joinpath (Path
        [] [''chai_output_seed-1'']) ''chai_error.log'' else joinpath (Path [] [])
        ''chai_error.log'') \<and>
   [Spawn (chai_argv ''1'') (ended 1 [] ''boom'')] = events \<lparr>world = (with_seed_dir (with_tmp
        work_only)), events = []\<rparr> @ (if truthy None then [Mkdir (Path []
        [''chai_output_seed-1''])] else []) @ [Spawn (chai_argv ''1'') (ended 1 [] ''boom'')] \<and>
   open_w fails_once (Path [] [''chai_output_seed-1'', ''chai_error.log'']) (with_seed_dir (with_tmp
        work_only)) = Inr (put_file (Path ''/'' [''work'', ''chai_output_seed-1'',
        ''chai_error.log'']) [] (with_seed_dir (with_tmp work_only))) \<and>
   utf8_valid (stderr_bytes (ended 1 [] ''boom'')) \<and>
   write_close fails_once (Path [] [''chai_output_seed-1'', ''chai_error.log'']) (stderr_bytes (ended
        1 [] ''boom'')) (put_file (Path ''/'' [''work'', ''chai_output_seed-1'', ''chai_error.log''])
        [] (with_seed_dir (with_tmp work_only))) = Inr (put_file (Path ''/'' [''work'',
        ''chai_output_seed-1'', ''chai_error.log'']) ''boom'' (put_file (Path ''/'' [''work'',
        ''chai_output_seed-1'', ''chai_error.log'']) [] (with_seed_dir (with_tmp work_only)))) \<and>
   chai_seed fails_once (demo_fasta [1]) (Path [] []) False 5 10 False None None 1 \<lparr>world =
        (with_seed_dir (with_tmp work_only)), events = []\<rparr> = (Inr (Some False), \<lparr>world
        = (put_file (Path ''/'' [''work'', ''chai_output_seed-1'', ''chai_error.log'']) ''boom''
        (put_file (Path ''/'' [''work'', ''chai_output_seed-1'', ''chai_error.log'']) []
        (with_seed_dir (with_tmp work_only)))), events = [Spawn (chai_argv ''1'') (ended 1 []
        ''boom'')] @ [OpenW (Path [] [''chai_output_seed-1'', ''chai_error.log'']), WriteText (Path
        [] [''chai_output_seed-1'', ''chai_error.log'']) ''boom'']\<rparr>) \<and>
   \<not> exists (host_of fails_once (with_tmp work_only)) (Path [] [''out'',
        ''chai_output_seed-1'']) \<and>
   \<not> exists (host_of fails_once (with_tmp work_only)) (Path [] [''out'']) \<and>
   Path [] [''out'', ''chai_output_seed-1''] = joinpath (Path [] [''out'']) (''chai_output_seed-'' @
        str_int 1) \<and>
   (if truthy None then mkdir_parents fails_once (Path [] [''out'', ''chai_output_seed-1'']) (world
        \<lparr>world = with_tmp work_only, events = []\<rparr>) = Inr (with_tmp work_only) else
        (with_tmp work_only) = world \<lparr>world = with_tmp work_only, events = []\<rparr>) \<and>
   (if \<not> False then generate_chai_command (host_of fails_once (with_tmp work_only)) (cf_fasta
        (demo_fasta [1])) (cf_working_dir (demo_fasta [1])) (cf_constraints (demo_fasta [1])) (PPath
        (Path [] [''out'', ''chai_output_seed-1''])) 5 10 1 False None None else
        generate_chai_test_command (host_of fails_once (with_tmp work_only)) None) = Inr
        (chai_argv_to ''out'' ''1'') \<and>
   popen fails_once (chai_argv_to ''out'' ''1'') (with_tmp work_only) = Inr (ended 1 [] ''boom'',
        with_tmp work_only) \<and>
   returncode (ended 1 [] ''boom'') \<noteq> 0 \<and>
   Path [] [''out'', ''chai_error.log''] = (if exists (host_of fails_once (with_tmp work_only)) (Path
        [] [''out'', ''chai_output_seed-1'']) then joinpath (Path [] [''out'',
        ''chai_output_seed-1'']) ''chai_error.log'' else joinpath (Path [] [''out''])
        ''chai_error.log'') \<and>
   [Spawn (chai_argv_to ''out'' ''1'') (ended 1 [] ''boom'')] = events \<lparr>world = with_tmp
        work_only, events = []\<rparr> @ (if truthy None then [Mkdir (Path [] [''out'',
        ''chai_output_seed-1''])] else []) @ [Spawn (chai_argv_to ''out'' ''1'') (ended 1 []
        ''boom'')] \<and>
   open_w fails_once (Path [] [''out'', ''chai_error.log'']) (with_tmp work_only) = Inl
        FileNotFoundError \<and>
   chai_seed fails_once (demo_fasta [1]) (Path [] [''out'']) False 5 10 False None None 1
        \<lparr>world = with_tmp work_only, events = []\<rparr> = (Inl FileNotFoundError,
        \<lparr>world = with_tmp work_only, events = [Spawn (chai_argv_to ''out'' ''1'') (ended 1 []
        ''boom'')]\<rparr>)"
proof -
  have boom: "stderr_bytes (ended 1 [] ''boom'') = ''boom''"
    by code_simp
  have ax1: "\<not> exists (host_of fails_once (with_tmp work_only)) (Path [] [''chai_output_seed-1''])"
    by code_simp
  have a1: "Path [] [''chai_output_seed-1''] = joinpath (Path [] []) (''chai_output_seed-'' @ str_int 1)"
    by code_simp
  have a2: "(if truthy None then mkdir_parents fails_once (Path [] [''chai_output_seed-1'']) (world
      \<lparr>world = with_tmp work_only, events = []\<rparr>) = Inr (with_tmp work_only) else
      (with_tmp work_only) = world \<lparr>world = with_tmp work_only, events = []\<rparr>)"
    by code_simp
  have a3: "(if \<not> False then generate_chai_command (host_of fails_once (with_tmp work_only)) (cf_fasta
      (demo_fasta [1])) (cf_working_dir (demo_fasta [1])) (cf_constraints (demo_fasta [1])) (PPath
      (Path [] [''chai_output_seed-1''])) 5 10 1 False None None else generate_chai_test_command
      (host_of fails_once (with_tmp work_only)) None) = Inr (chai_argv ''1'')"
    by code_simp
  have a4: "popen fails_once (chai_argv ''1'') (with_tmp work_only) = Inr (ended 1 [] ''boom'', with_tmp
      work_only)"
    by code_simp
  have a5: "returncode (ended 1 [] ''boom'') \<noteq> 0"
    by code_simp
  have a6: "Path [] [''chai_error.log''] = (if exists (host_of fails_once (with_tmp work_only)) (Path []
      [''chai_output_seed-1'']) then joinpath (Path [] [''chai_output_seed-1''])
      ''chai_error.log'' else joinpath (Path [] []) ''chai_error.log'')"
    by code_simp
  have a7: "[Spawn (chai_argv ''1'') (ended 1 [] ''boom'')] = events \<lparr>world = with_tmp work_only,
      events = []\<rparr> @ (if truthy None then [Mkdir (Path [] [''chai_output_seed-1''])] else
      []) @ [Spawn (chai_argv ''1'') (ended 1 [] ''boom'')]"
    by code_simp
  have a8: "(chai_seed fails_once (demo_fasta [1]) (Path [] []) False 5 10 False
          None None 1 \<lparr>world = (with_tmp work_only), events = []\<rparr>) = chai_seed fails_once (demo_fasta [1]) (Path [] []) False 5 10 False
          None None 1 \<lparr>world = (with_tmp work_only), events = []\<rparr>" ..
  have as1: "open_w fails_once (Path [] [''chai_error.log'']) (with_tmp work_only) = Inr (put_file (in_work
      ''chai_error.log'') [] (with_tmp work_only))"
    by code_simp
  have as2: "utf8_valid (stderr_bytes (ended 1 [] ''boom''))"
    by code_simp
  have as3: "write_close fails_once (Path [] [''chai_error.log'']) (stderr_bytes (ended 1 [] ''boom''))
      (put_file (in_work ''chai_error.log'') [] (with_tmp work_only)) = Inr (put_file (in_work
      ''chai_error.log'') ''boom'' (put_file (in_work ''chai_error.log'') [] (with_tmp
      work_only)))"
    by code_simp
  from a1 a2 a3 a4 a5 a6 a7 a8
  have ah: "Path [] [''chai_output_seed-1''] = joinpath (Path [] []) (''chai_output_seed-'' @ str_int 1) \<and>
      (if truthy None then mkdir_parents fails_once (Path [] [''chai_output_seed-1'']) (world
              \<lparr>world = with_tmp work_only, events = []\<rparr>) = Inr (with_tmp work_only) else
              (with_tmp work_only) = world \<lparr>world = with_tmp work_only, events = []\<rparr>) \<and>
      (if \<not> False then generate_chai_command (host_of fails_once (with_tmp work_only)) (cf_fasta
              (demo_fasta [1])) (cf_working_dir (demo_fasta [1])) (cf_constraints (demo_fasta [1]))
              (PPath (Path [] [''chai_output_seed-1''])) 5 10 1 False None None else
              generate_chai_test_command (host_of fails_once (with_tmp work_only)) None) = Inr
              (chai_argv ''1'') \<and>
      popen fails_once (chai_argv ''1'') (with_tmp work_only) = Inr (ended 1 [] ''boom'', with_tmp
              work_only) \<and>
      returncode (ended 1 [] ''boom'') \<noteq> 0 \<and>
      Path [] [''chai_error.log''] = (if exists (host_of fails_once (with_tmp work_only)) (Path []
              [''chai_output_seed-1'']) then joinpath (Path [] [''chai_output_seed-1''])
              ''chai_error.log'' else joinpath (Path [] []) ''chai_error.log'') \<and>
      [Spawn (chai_argv ''1'') (ended 1 [] ''boom'')] = events \<lparr>world = with_tmp work_only,
              events = []\<rparr> @ (if truthy None then [Mkdir (Path [] [''chai_output_seed-1''])] else
              []) @ [Spawn (chai_argv ''1'') (ended 1 [] ''boom'')] \<and>
      (chai_seed fails_once (demo_fasta [1]) (Path [] []) False 5 10 False None None 1 \<lparr>world =
              with_tmp work_only, events = []\<rparr>) = chai_seed fails_once (demo_fasta [1]) (Path []
              []) False 5 10 False None None 1 \<lparr>world = with_tmp work_only, events = []\<rparr>"
    by (intro conjI)
  from as1 as2 as3
  have ab: "open_w fails_once (Path [] [''chai_error.log'']) (with_tmp work_only) = Inr (put_file (in_work
              ''chai_error.log'') [] (with_tmp work_only)) \<and>
      utf8_valid (stderr_bytes (ended 1 [] ''boom'')) \<and>
      write_close fails_once (Path [] [''chai_error.log'']) (stderr_bytes (ended 1 [] ''boom''))
              (put_file (in_work ''chai_error.log'') [] (with_tmp work_only)) = Inr (put_file (in_work
              ''chai_error.log'') ''boom'' (put_file (in_work ''chai_error.log'') [] (with_tmp
              work_only)))"
    by (intro conjI)
  note ar = chai_error_log_location [THEN mp, OF ah, THEN conjunct1, THEN mp, OF ab,
    unfolded boom]
  have bx1: "exists (host_of fails_once (with_seed_dir (with_tmp work_only))) (Path []
      [''chai_output_seed-1''])"
    by code_simp
  have b1: "Path [] [''chai_output_seed-1''] = joinpath (Path [] []) (''chai_output_seed-'' @ str_int 1)"
    by code_simp
  have b2: "(if truthy None then mkdir_parents fails_once (Path [] [''chai_output_seed-1'']) (world
      \<lparr>world = (with_seed_dir (with_tmp work_only)), events = []\<rparr>) = Inr
      (with_seed_dir (with_tmp work_only)) else (with_seed_dir (with_tmp work_only)) = world
      \<lparr>world = (with_seed_dir (with_tmp work_only)), events = []\<rparr>)"
    by code_simp
  have b3: "(if \<not> False then generate_chai_command (host_of fails_once (with_seed_dir (with_tmp
      work_only))) (cf_fasta (demo_fasta [1])) (cf_working_dir (demo_fasta [1])) (cf_constraints
      (demo_fasta [1])) (PPath (Path [] [''chai_output_seed-1''])) 5 10 1 False None None else
      generate_chai_test_command (host_of fails_once (with_seed_dir (with_tmp work_only))) None) =
      Inr (chai_argv ''1'')"
    by code_simp
  have b4: "popen fails_once (chai_argv ''1'') (with_seed_dir (with_tmp work_only)) = Inr (ended 1 []
      ''boom'', (with_seed_dir (with_tmp work_only)))"
    by code_simp
  have b5: "returncode (ended 1 [] ''boom'') \<noteq> 0"
    by code_simp
  have b6: "Path [] [''chai_output_seed-1'', ''chai_error.log''] = (if exists (host_of fails_once
      (with_seed_dir (with_tmp work_only))) (Path [] [''chai_output_seed-1'']) then joinpath (Path
      [] [''chai_output_seed-1'']) ''chai_error.log'' else joinpath (Path [] [])
      ''chai_error.log'')"
    by code_simp
  have b7: "[Spawn (chai_argv ''1'') (ended 1 [] ''boom'')] = events \<lparr>world = (with_seed_dir (with_tmp
      work_only)), events = []\<rparr> @ (if truthy None then [Mkdir (Path []
      [''chai_output_seed-1''])] else []) @ [Spawn (chai_argv ''1'') (ended 1 [] ''boom'')]"
    by code_simp
  have b8: "(chai_seed fails_once (demo_fasta [1]) (Path [] []) False 5 10 False
          None None 1 \<lparr>world = (with_seed_dir (with_tmp work_only)), events = []\<rparr>) = chai_seed fails_once (demo_fasta [1]) (Path [] []) False 5 10 False
          None None 1 \<lparr>world = (with_seed_dir (with_tmp work_only)), events = []\<rparr>" ..
  have bs1: "open_w fails_once (Path [] [''chai_output_seed-1'', ''chai_error.log'']) (with_seed_dir (with_tmp
      work_only)) = Inr (put_file (Path ''/'' [''work'', ''chai_output_seed-1'',
      ''chai_error.log'']) [] (with_seed_dir (with_tmp work_only)))"
    by code_simp
  have bs2: "utf8_valid (stderr_bytes (ended 1 [] ''boom''))"
    by code_simp
  have bs3: "write_close fails_once (Path [] [''chai_output_seed-1'', ''chai_error.log'']) (stderr_bytes (ended
      1 [] ''boom'')) (put_file (Path ''/'' [''work'', ''chai_output_seed-1'',
      ''chai_error.log'']) [] (with_seed_dir (with_tmp work_only))) = Inr (put_file (Path ''/''
      [''work'', ''chai_output_seed-1'', ''chai_error.log'']) ''boom'' (put_file (Path ''/''
      [''work'', ''chai_output_seed-1'', ''chai_error.log'']) [] (with_seed_dir (with_tmp
      work_only))))"
    by code_simp
  from b1 b2 b3 b4 b5 b6 b7 b8
  have bh: "Path [] [''chai_output_seed-1''] = joinpath (Path [] []) (''chai_output_seed-'' @ str_int 1) \<and>
      (if truthy None then mkdir_parents fails_once (Path [] [''chai_output_seed-1'']) (world
              \<lparr>world = (with_seed_dir (with_tmp work_only)), events = []\<rparr>) = Inr
              (with_seed_dir (with_tmp work_only)) else (with_seed_dir (with_tmp work_only)) = world
              \<lparr>world = (with_seed_dir (with_tmp work_only)), events = []\<rparr>) \<and>
      (if \<not> False then generate_chai_command (host_of fails_once (with_seed_dir (with_tmp
              work_only))) (cf_fasta (demo_fasta [1])) (cf_working_dir (demo_fasta [1])) (cf_constraints
              (demo_fasta [1])) (PPath (Path [] [''chai_output_seed-1''])) 5 10 1 False None None else
              generate_chai_test_command (host_of fails_once (with_seed_dir (with_tmp work_only))) None)
              = Inr (chai_argv ''1'') \<and>
      popen fails_once (chai_argv ''1'') (with_seed_dir (with_tmp work_only)) = Inr (ended 1 []
              ''boom'', (with_seed_dir (with_tmp work_only))) \<and>
      returncode (ended 1 [] ''boom'') \<noteq> 0 \<and>
      Path [] [''chai_output_seed-1'', ''chai_error.log''] = (if exists (host_of fails_once
              (with_seed_dir (with_tmp work_only))) (Path [] [''chai_output_seed-1'']) then joinpath
              (Path [] [''chai_output_seed-1'']) ''chai_error.log'' else joinpath (Path [] [])
              ''chai_error.log'') \<and>
      [Spawn (chai_argv ''1'') (ended 1 [] ''boom'')] = events \<lparr>world = (with_seed_dir (with_tmp
              work_only)), events = []\<rparr> @ (if truthy None then [Mkdir (Path []
              [''chai_output_seed-1''])] else []) @ [Spawn (chai_argv ''1'') (ended 1 [] ''boom'')] \<and>
      (chai_seed fails_once (demo_fasta [1]) (Path [] []) False 5 10 False None None 1 \<lparr>world =
              (with_seed_dir (with_tmp work_only)), events = []\<rparr>) = chai_seed fails_once
              (demo_fasta [1]) (Path [] []) False 5 10 False None None 1 \<lparr>world = (with_seed_dir
              (with_tmp work_only)), events = []\<rparr>"
    by (intro conjI)
  from bs1 bs2 bs3
  have bb: "open_w fails_once (Path [] [''chai_output_seed-1'', ''chai_error.log'']) (with_seed_dir (with_tmp
              work_only)) = Inr (put_file (Path ''/'' [''work'', ''chai_output_seed-1'',
              ''chai_error.log'']) [] (with_seed_dir (with_tmp work_only))) \<and>
      utf8_valid (stderr_bytes (ended 1 [] ''boom'')) \<and>
      write_close fails_once (Path [] [''chai_output_seed-1'', ''chai_error.log'']) (stderr_bytes (ended
              1 [] ''boom'')) (put_file (Path ''/'' [''work'', ''chai_output_seed-1'',
              ''chai_error.log'']) [] (with_seed_dir (with_tmp work_only))) = Inr (put_file (Path ''/''
              [''work'', ''chai_output_seed-1'', ''chai_error.log'']) ''boom'' (put_file (Path ''/''
              [''work'', ''chai_output_seed-1'', ''chai_error.log'']) [] (with_seed_dir (with_tmp
              work_only))))"
    by (intro conjI)
  note br = chai_error_log_location [THEN mp, OF bh, THEN conjunct1, THEN mp, OF bb,
    unfolded boom]
  have cx1: "\<not> exists (host_of fails_once (with_tmp work_only)) (Path [] [''out'',
      ''chai_output_seed-1''])"
    by code_simp
  have cx2: "\<not> exists (host_of fails_once (with_tmp work_only)) (Path [] [''out''])"
    by code_simp
  have c1: "Path [] [''out'', ''chai_output_seed-1''] = joinpath (Path [] [''out'']) (''chai_output_seed-'' @
      str_int 1)"
    by code_simp
  have c2: "(if truthy None then mkdir_parents fails_once (Path [] [''out'', ''chai_output_seed-1'']) (world
      \<lparr>world = with_tmp work_only, events = []\<rparr>) = Inr (with_tmp work_only) else
      (with_tmp work_only) = world \<lparr>world = with_tmp work_only, events = []\<rparr>)"
    by code_simp
  have c3: "(if \<not> False then generate_chai_command (host_of fails_once (with_tmp work_only)) (cf_fasta
      (demo_fasta [1])) (cf_working_dir (demo_fasta [1])) (cf_constraints (demo_fasta [1])) (PPath
      (Path [] [''out'', ''chai_output_seed-1''])) 5 10 1 False None None else
      generate_chai_test_command (host_of fails_once (with_tmp work_only)) None) = Inr
      (chai_argv_to ''out'' ''1'')"
    by code_simp
  have c4: "popen fails_once (chai_argv_to ''out'' ''1'') (with_tmp work_only) = Inr (ended 1 [] ''boom'',
      with_tmp work_only)"
    by code_simp
  have c5: "returncode (ended 1 [] ''boom'') \<noteq> 0"
    by code_simp
  have c6: "Path [] [''out'', ''chai_error.log''] = (if exists (host_of fails_once (with_tmp work_only)) (Path
      [] [''out'', ''chai_output_seed-1'']) then joinpath (Path [] [''out'',
      ''chai_output_seed-1'']) ''chai_error.log'' else joinpath (Path [] [''out''])
      ''chai_error.log'')"
    by code_simp
  have c7: "[Spawn (chai_argv_to ''out'' ''1'') (ended 1 [] ''boom'')] = events \<lparr>world = with_tmp
      work_only, events = []\<rparr> @ (if truthy None then [Mkdir (Path [] [''out'',
      ''chai_output_seed-1''])] else []) @ [Spawn (chai_argv_to ''out'' ''1'') (ended 1 []
      ''boom'')]"
    by code_simp
  have c8: "(chai_seed fails_once (demo_fasta [1]) (Path [] [''out'']) False 5 10 False
          None None 1 \<lparr>world = (with_tmp work_only), events = []\<rparr>) = chai_seed fails_once (demo_fasta [1]) (Path [] [''out'']) False 5 10 False
          None None 1 \<lparr>world = (with_tmp work_only), events = []\<rparr>" ..
  have cs1: "open_w fails_once (Path [] [''out'', ''chai_error.log'']) (with_tmp work_only) = Inl
      FileNotFoundError"
    by code_simp
  from c1 c2 c3 c4 c5 c6 c7 c8
  have ch: "Path [] [''out'', ''chai_output_seed-1''] = joinpath (Path [] [''out'']) (''chai_output_seed-'' @
              str_int 1) \<and>
      (if truthy None then mkdir_parents fails_once (Path [] [''out'', ''chai_output_seed-1'']) (world
              \<lparr>world = with_tmp work_only, events = []\<rparr>) = Inr (with_tmp work_only) else
              (with_tmp work_only) = world \<lparr>world = with_tmp work_only, events = []\<rparr>) \<and>
      (if \<not> False then generate_chai_command (host_of fails_once (with_tmp work_only)) (cf_fasta
              (demo_fasta [1])) (cf_working_dir (demo_fasta [1])) (cf_constraints (demo_fasta [1]))
              (PPath (Path [] [''out'', ''chai_output_seed-1''])) 5 10 1 False None None else
              generate_chai_test_command (host_of fails_once (with_tmp work_only)) None) = Inr
              (chai_argv_to ''out'' ''1'') \<and>
      popen fails_once (chai_argv_to ''out'' ''1'') (with_tmp work_only) = Inr (ended 1 [] ''boom'',
              with_tmp work_only) \<and>
      returncode (ended 1 [] ''boom'') \<noteq> 0 \<and>
      Path [] [''out'', ''chai_error.log''] = (if exists (host_of fails_once (with_tmp work_only)) (Path
              [] [''out'', ''chai_output_seed-1'']) then joinpath (Path [] [''out'',
              ''chai_output_seed-1'']) ''chai_error.log'' else joinpath (Path [] [''out''])
              ''chai_error.log'') \<and>
      [Spawn (chai_argv_to ''out'' ''1'') (ended 1 [] ''boom'')] = events \<lparr>world = with_tmp
              work_only, events = []\<rparr> @ (if truthy None then [Mkdir (Path [] [''out'',
              ''chai_output_seed-1''])] else []) @ [Spawn (chai_argv_to ''out'' ''1'') (ended 1 []
              ''boom'')] \<and>
      (chai_seed fails_once (demo_fasta [1]) (Path [] [''out'']) False 5 10 False None None 1
              \<lparr>world = with_tmp work_only, events = []\<rparr>) = chai_seed fails_once
              (demo_fasta [1]) (Path [] [''out'']) False 5 10 False None None 1 \<lparr>world = with_tmp
              work_only, events = []\<rparr>"
    by (intro conjI)
  note cb = cs1
  note cr = chai_error_log_location [THEN mp, OF ch, THEN conjunct2, THEN conjunct1, THEN mp, OF cb,
    unfolded boom]
  from ax1 a1 a2 a3 a4 a5 a6 a7 as1 as2 as3 ar
       bx1 b1 b2 b3 b4 b5 b6 b7 bs1 bs2 bs3 br
       cx1 cx2 c1 c2 c3 c4 c5 c6 c7 cs1 cr
  show ?thesis by (intro conjI)
qed

text \<open>
  C10 as stated fails in its last part: in bare mode, with no per-seed directory before the
  launch, a child that makes its output directory and then exits with code 1 has its log
  written inside that directory, not in the parent.
\<close>

theorem bare_mode_log_in_seed_dir:
  "\<not> truthy None \<and>
   Path ''/'' [''work'', ''chai_output_seed-1''] \<notin> set (dirs work_only) \<and>
   fst (run_chai (mem_env True
            (makes_dir_then_fails (Path ''/'' [''work'', ''chai_output_seed-1'']) ''boom'') [1])
          (PStr ''x.json'') (PStr ''.'') False False 5 10 False None None work_only) = Inr False \<and>
   snd (run_chai (mem_env True
            (makes_dir_then_fails (Path ''/'' [''work'', ''chai_output_seed-1'']) ''boom'') [1])
          (PStr ''x.json'') (PStr ''.'') False False 5 10 False None None work_only)
     = \<lparr>world = \<lparr>dirs = [Path ''/'' [''work''], Path ''/'' [''work'', ''chai_output_seed-1'']],
                   files = [(Path ''/'' [''work'', ''x.json''], []),
                            (Path ''/'' [''work'', ''chai_output_seed-1'', ''chai_error.log''],
                             ''boom'')]\<rparr>,
         events = [Spawn (chai_argv ''1'') (ended 1 [] ''boom''),
                   OpenW (Path [] [''chai_output_seed-1'', ''chai_error.log'']),
                   WriteText (Path [] [''chai_output_seed-1'', ''chai_error.log'']) ''boom'']\<rparr>"
proof -
  have "\<not> truthy None" by simp
  moreover have "Path ''/'' [''work'', ''chai_output_seed-1''] \<notin> set (dirs work_only)"
    by (simp add: work_only_def)
  ultimately show ?thesis using ex_chai_child_makes_dir by (intro conjI) simp_all
qed

end
